theory Spec2Isabelle
  imports Main "HOL-Library.AList"
begin

section \<open>JavaScript values\<close>

text \<open>
  The webhook notifier, both route handlers and the parser gateway pass values of
  TypeScript type \<open>any\<close> around: the body of a parser response, the value produced by
  \<open>JSON.parse\<close>, the object handed to \<open>sendWebhookNotification\<close>. They are modelled
  by one datatype of JSON-like values. An object is an association list in insertion
  order. An array is an object too: besides its elements it carries named properties
  (the resend handler assigns \<open>data.cvUrl\<close> on whatever the stored raw data is).
  Numbers are integers; fractions, NaN and infinities are outside the model.
\<close>

datatype jsval =
    JUndefined
  | JNull
  | JBool bool
  | JNum int
  | JStr string
  | JArr "jsval list" "(string \<times> jsval) list"
  | JObj "(string \<times> jsval) list"

text \<open>The conversion to boolean behind \<open>if (v)\<close>, \<open>!v\<close>, \<open>a || b\<close> and \<open>a && b\<close>.\<close>

fun truthy :: "jsval \<Rightarrow> bool" where
  "truthy JUndefined = False"
| "truthy JNull = False"
| "truthy (JBool b) = b"
| "truthy (JNum n) = (n \<noteq> 0)"
| "truthy (JStr s) = (s \<noteq> [])"
| "truthy (JArr xs ps) = True"
| "truthy (JObj kvs) = True"

text \<open>\<open>a || b\<close>: the left operand when it is truthy, the right one otherwise.\<close>

definition js_or :: "jsval \<Rightarrow> jsval \<Rightarrow> jsval" where
  "js_or a b = (if truthy a then a else b)"

text \<open>\<open>a && b\<close>: the left operand when it is falsy, the right one otherwise.\<close>

definition js_and :: "jsval \<Rightarrow> jsval \<Rightarrow> jsval" where
  "js_and a b = (if truthy a then b else a)"

definition nullish :: "jsval \<Rightarrow> bool" where
  "nullish v = (v = JUndefined \<or> v = JNull)"

text \<open>
  Reading a named property \<open>v.k\<close>. On \<open>undefined\<close> and \<open>null\<close> the read throws a
  TypeError: every caller below tests \<open>nullish\<close> before its first read, as the
  evaluation order of the source has the first read throw. The names read by this
  program are never array indices, \<open>length\<close> or prototype members, so a primitive
  yields \<open>undefined\<close>. \<open>js_opt_prop\<close> is the optional chain \<open>v?.k\<close>.
\<close>

fun js_prop :: "jsval \<Rightarrow> string \<Rightarrow> jsval" where
  "js_prop (JObj kvs) k = (case map_of kvs k of None \<Rightarrow> JUndefined | Some v \<Rightarrow> v)"
| "js_prop (JArr xs ps) k = (case map_of ps k of None \<Rightarrow> JUndefined | Some v \<Rightarrow> v)"
| "js_prop v k = JUndefined"

definition js_opt_prop :: "jsval \<Rightarrow> string \<Rightarrow> jsval" where
  "js_opt_prop v k = (if nullish v then JUndefined else js_prop v k)"

text \<open>\<open>k in v\<close> for an object: whether the key exists at all, whatever it holds.\<close>

fun has_key :: "jsval \<Rightarrow> string \<Rightarrow> bool" where
  "has_key (JObj kvs) k = (k \<in> fst ` set kvs)"
| "has_key (JArr xs ps) k = (k \<in> fst ` set ps)"
| "has_key v k = False"

text \<open>Decimal rendering of a number inside a template literal.\<close>

fun show_nat :: "nat \<Rightarrow> string" where
  "show_nat n =
     (if n < 10 then [''0123456789'' ! n]
      else show_nat (n div 10) @ [''0123456789'' ! (n mod 10)])"

declare show_nat.simps [simp del]

definition show_int :: "int \<Rightarrow> string" where
  "show_int i = (if i < 0 then CHR ''-'' # show_nat (nat (- i)) else show_nat (nat i))"

section \<open>Exceptions and HTTP responses\<close>

text \<open>
  What \<open>axios\<close> resolves with: \<open>response.status\<close> and \<open>response.data\<close>.
\<close>

datatype http_response = HttpResponse (resp_status: int) (resp_data: jsval)

text \<open>
  A thrown value. Everything this program can catch is an \<open>Error\<close> instance (the
  TypeError of the runtime, the SyntaxError of \<open>JSON.parse\<close>, the errors of axios, of the
  storage client and of the document store): \<open>error.name\<close>, \<open>error.message\<close>,
  and for an axios error that carries one, \<open>error.response\<close>. A computation that may
  throw returns \<open>js_exn + 'a\<close> with the exception on the left.
\<close>

datatype js_exn =
  JsError (exn_name: string) (exn_message: string) (exn_response: "http_response option")

definition TypeError :: "string \<Rightarrow> js_exn" where
  "TypeError msg = JsError ''TypeError'' msg None"

definition Error :: "string \<Rightarrow> js_exn" where
  "Error msg = JsError ''Error'' msg None"

text \<open>\<open>error.response?.data\<close>\<close>

definition response_data :: "js_exn \<Rightarrow> jsval" where
  "response_data error =
     (case exn_response error of None \<Rightarrow> JUndefined | Some r \<Rightarrow> resp_data r)"

text \<open>
  Assignment \<open>v.k = x\<close> in a module (strict mode): it throws on \<open>undefined\<close>,
  \<open>null\<close> and on every primitive.
\<close>

fun js_set :: "jsval \<Rightarrow> string \<Rightarrow> jsval \<Rightarrow> js_exn + jsval" where
  "js_set (JObj kvs) k x = Inr (JObj (AList.update k x kvs))"
| "js_set (JArr xs ps) k x = Inr (JArr xs (AList.update k x ps))"
| "js_set v k x = Inl (TypeError (''Cannot create property '' @ k))"

section \<open>The persisted record\<close>

record cv =
  cv_fileName :: string
  cv_fileType :: string
  cv_fileSize :: int
  cv_url :: string
  cv_pythonAnalysis :: jsval

datatype ApplicationStatus = pending | reviewed | contacted | rejected | hired

text \<open>
  \<open>IApplication\<close> (fields prefixed \<open>app_\<close>, those of \<open>CV\<close> prefixed \<open>cv_\<close>).
  \<open>parsedResume\<close>, \<open>webhookSent\<close> and \<open>webhookResponse\<close> hold
  whatever the handlers assign, so they are \<open>jsval\<close>s (\<open>JNull\<close>: the handler passed
  \<open>null\<close>). The timestamps \<open>createdAt\<close> and \<open>updatedAt\<close> are left out: no handler
  reads them. A record is a document of the model \<open>Application\<close>: what
  \<open>new Application(...)\<close> makes of the object the handler hands to it, with the setters
  and defaults of \<open>applicationSchema\<close> applied (see \<open>new_Application\<close> below).
\<close>

record application =
  app_id :: string
  app_name :: string
  app_email :: string
  app_phone :: string
  app_cv :: cv
  app_parsedResume :: jsval
  app_status :: ApplicationStatus
  app_webhookSent :: jsval
  app_webhookResponse :: jsval
  app_notes :: "string option"

section \<open>The outside world\<close>

text \<open>
  Every effect on something outside the process is an event of the trace, in the order
  in which it happens. Console output is not modelled.
\<close>

datatype event =
    S3Put string "nat list" string
  | HealthProbe
  | ParseRequest string
  | WebhookPost jsval jsval
  | Sleep int
  | DbConnect
  | DbFindById string
  | DbSave application

text \<open>A reading of the clock: \<open>Date.now()\<close> and the same instant as \<open>toISOString()\<close>.\<close>

datatype instant = Instant (getTime: int) (toISOString: string)

text \<open>
  The world is the trace so far, the document store, the configuration of the process
  and, for each kind of outside call, what the next calls of that kind will answer
  (number 0 is the next one). \<open>JSON.parse\<close> belongs to the runtime and is a parameter as
  well; so is \<open>schema_cast\<close>, the cast the schema library applies to a value assigned to
  a typed path under \<open>parsedResume\<close> (to a string, to an array of strings, to an array of
  subdocuments), given the name of the path.
\<close>

record world =
  trace :: "event list"
  store :: "(string \<times> application) list"
  clock :: "nat \<Rightarrow> instant"
  s3_send :: "nat \<Rightarrow> js_exn option"
  health_get :: "nat \<Rightarrow> js_exn option"
  parse_post :: "nat \<Rightarrow> js_exn + http_response"
  webhook_post :: "nat \<Rightarrow> js_exn + http_response"
  db_connect :: "nat \<Rightarrow> js_exn option"
  db_find :: "nat \<Rightarrow> js_exn option"
  db_save :: "nat \<Rightarrow> js_exn option"
  object_id :: "nat \<Rightarrow> string"
  json_parse :: "string \<Rightarrow> js_exn + jsval"
  schema_cast :: "string \<Rightarrow> jsval \<Rightarrow> jsval"
  AWS_S3_BUCKET_NAME :: string
  AWS_REGION :: string

text \<open>\<open>new Date()\<close> / \<open>Date.now()\<close>\<close>

definition new_Date :: "world \<Rightarrow> instant \<times> world" where
  "new_Date w = (clock w 0, w\<lparr>clock := clock w \<circ> Suc\<rparr>)"

text \<open>\<open>await new Promise((resolve) => setTimeout(resolve, delay))\<close>\<close>

definition sleep :: "int \<Rightarrow> world \<Rightarrow> world" where
  "sleep delay w = w\<lparr>trace := trace w @ [Sleep delay]\<rparr>"

text \<open>
  \<open>axios.post("https://rnd-assignment.automations-3d6.workers.dev/", payload, ...)\<close>
  with the header \<open>X-Candidate-Email: email\<close>; a response outside 2xx, a timeout and a
  network failure reject.
\<close>

definition axios_post_webhook ::
  "jsval \<Rightarrow> jsval \<Rightarrow> world \<Rightarrow> (js_exn + http_response) \<times> world" where
  "axios_post_webhook payload email w =
     (webhook_post w 0,
      w\<lparr>trace := trace w @ [WebhookPost payload email],
        webhook_post := webhook_post w \<circ> Suc\<rparr>)"

section \<open>The webhook notifier\<close>

datatype environment = Testing | Prod

fun environment_tag :: "environment \<Rightarrow> string" where
  "environment_tag Testing = ''testing''"
| "environment_tag Prod = ''prod''"

text \<open>
  The object literal \<open>payload\<close> of \<open>sendWebhookNotification\<close> and the conditional
  assignment of \<open>payload.cv_data.work_experience\<close> after it, for a \<open>data\<close> that can be
  read. \<open>email\<close> is declared a string, but the submission handler passes
  \<open>parsedData.email || email\<close>, so it is a \<open>jsval\<close> here. \<open>timestamp\<close> is
  \<open>new Date().toISOString()\<close>.
\<close>

definition payload_of :: "jsval \<Rightarrow> jsval \<Rightarrow> environment \<Rightarrow> string \<Rightarrow> jsval" where
  "payload_of data email environment timestamp =
     (let cv_data =
        [(''personal_info'', JObj
            [(''name'', js_or (js_prop data ''fullName'') (JStr '''')),
             (''email'', js_or (js_prop data ''email'') email),
             (''github'', js_or (js_prop data ''github'') (JStr '''')),
             (''linkedin'', js_or (js_prop data ''linkedin'') (JStr ''''))]),
         (''education'', js_or (js_prop data ''education'') (JArr [] [])),
         (''qualifications'', js_or (js_prop data ''technicalSkills'') (JArr [] [])),
         (''projects'', JArr [] []),
         (''cv_public_link'', js_or (js_prop data ''cvUrl'') (JStr ''''))];
       metadata =
        [(''applicant_name'', js_or (js_prop data ''fullName'') (JStr ''Unknown Candidate'')),
         (''email'', email),
         (''status'', JStr (environment_tag environment)),
         (''cv_processed'', JBool True),
         (''processed_timestamp'', JStr timestamp)]
      in JObj
        [(''cv_data'', JObj
            (if truthy (js_prop data ''employment'')
             then AList.update ''work_experience'' (js_prop data ''employment'') cv_data
             else cv_data)),
         (''metadata'', JObj metadata)])"

text \<open>
  Building the payload inside the \<open>try\<close>: \<open>data.fullName\<close> is the first expression
  evaluated and throws when \<open>data\<close> is \<open>undefined\<close> or \<open>null\<close>, before the clock is read.
\<close>

definition build_payload ::
  "jsval \<Rightarrow> jsval \<Rightarrow> environment \<Rightarrow> world \<Rightarrow> (js_exn + jsval) \<times> world" where
  "build_payload data email environment w =
     (if nullish data
      then (Inl (TypeError ''Cannot read properties of undefined (reading fullName)''), w)
      else case new_Date w of
        (now, w1) \<Rightarrow> (Inr (payload_of data email environment (toISOString now)), w1))"

text \<open>The value returned from the \<open>catch\<close> block of \<open>sendWebhookNotification\<close>.\<close>

definition failure_result :: "js_exn \<Rightarrow> jsval" where
  "failure_result error =
     JObj [(''success'', JBool False),
           (''error'', JStr (exn_message error)),
           (''details'', response_data error)]"

definition success_result :: "http_response \<Rightarrow> jsval" where
  "success_result response =
     JObj [(''success'', JBool True),
           (''status'', JNum (resp_status response)),
           (''data'', resp_data response)]"

definition sendWebhookNotification ::
  "jsval \<Rightarrow> jsval \<Rightarrow> environment \<Rightarrow> world \<Rightarrow> (js_exn + jsval) \<times> world" where
  "sendWebhookNotification data email environment w =
     (case build_payload data email environment w of
        (Inl error, w1) \<Rightarrow> (Inr (failure_result error), w1)
      | (Inr payload, w1) \<Rightarrow>
          (case axios_post_webhook payload email w1 of
             (Inl error, w2) \<Rightarrow> (Inr (failure_result error), w2)
           | (Inr response, w2) \<Rightarrow> (Inr (success_result response), w2)))"

text \<open>
  \<open>retryWebhook\<close>. \<open>lastError\<close> starts \<open>undefined\<close>, becomes \<open>result.error\<close> after a
  failed attempt and the caught exception after a throwing one. The loop state is
  \<open>attempt\<close>, \<open>lastError\<close> and the world; the loop returns the final \<open>attempt\<close> beside
  the result, so that the number of attempts made can be stated.
\<close>

datatype last_error = LastValue jsval | LastCaught js_exn

text \<open>
  The string conversion of a value interpolated in a template literal. An array joins the
  conversions of its elements with commas, \<open>undefined\<close> and \<open>null\<close> elements as empty
  strings.
\<close>

fun join_commas :: "string list \<Rightarrow> string" where
  "join_commas [] = []"
| "join_commas [s] = s"
| "join_commas (s # ss) = s @ '','' @ join_commas ss"

fun template_string :: "jsval \<Rightarrow> string" where
  "template_string JUndefined = ''undefined''"
| "template_string JNull = ''null''"
| "template_string (JBool b) = (if b then ''true'' else ''false'')"
| "template_string (JNum n) = show_int n"
| "template_string (JStr s) = s"
| "template_string (JArr xs ps) =
     join_commas (map (\<lambda>x. if nullish x then [] else template_string x) xs)"
| "template_string (JObj kvs) = ''[object Object]''"

text \<open>\<open>Error.prototype.toString\<close>, the conversion of a caught error.\<close>

definition error_toString :: "js_exn \<Rightarrow> string" where
  "error_toString error =
     (if exn_name error = [] then exn_message error
      else if exn_message error = [] then exn_name error
      else exn_name error @ '': '' @ exn_message error)"

fun last_error_string :: "last_error \<Rightarrow> string" where
  "last_error_string (LastValue v) = template_string v"
| "last_error_string (LastCaught error) = error_toString error"

function retry_loop ::
  "jsval \<Rightarrow> jsval \<Rightarrow> int \<Rightarrow> int \<Rightarrow> environment \<Rightarrow> int \<Rightarrow> last_error \<Rightarrow> world
     \<Rightarrow> (jsval \<times> int) \<times> world" where
  "retry_loop data email retries delay environment attempt lastError w =
     (if attempt < retries then
        (case sendWebhookNotification data email environment w of
           (Inr result, w1) \<Rightarrow>
             if truthy (js_prop result ''success'') then ((result, attempt + 1), w1)
             else retry_loop data email retries delay environment (attempt + 1)
                    (LastValue (js_prop result ''error'')) (sleep delay w1)
         | (Inl error, w1) \<Rightarrow>
             retry_loop data email retries delay environment (attempt + 1)
               (LastCaught error) (sleep delay w1))
      else
        ((JObj [(''success'', JBool False),
                (''error'', JStr (''Failed after '' @ show_int retries @
                   '' attempts. Last error: '' @ last_error_string lastError))],
          attempt), w))"
  by pat_completeness auto
termination
  by (relation "measure (\<lambda>(data, email, retries, delay, environment, attempt, lastError, w).
        nat (retries - attempt))") auto

declare retry_loop.simps [simp del]

definition retryWebhook ::
  "jsval \<Rightarrow> jsval \<Rightarrow> int \<Rightarrow> int \<Rightarrow> environment \<Rightarrow> world \<Rightarrow> jsval \<times> world" where
  "retryWebhook data email retries delay environment w =
     (case retry_loop data email retries delay environment 0 (LastValue JUndefined) w of
        ((result, attempt), w') \<Rightarrow> (result, w'))"

text \<open>The value of \<open>attempt\<close> when \<open>retryWebhook\<close> returns: the attempts it made.\<close>

definition retryWebhook_attempts ::
  "jsval \<Rightarrow> jsval \<Rightarrow> int \<Rightarrow> int \<Rightarrow> environment \<Rightarrow> world \<Rightarrow> int" where
  "retryWebhook_attempts data email retries delay environment w =
     snd (fst (retry_loop data email retries delay environment 0 (LastValue JUndefined) w))"

section \<open>The external parser gateway\<close>

text \<open>
  \<open>axios.get("http://localhost:8000/health", { timeout: 2000 })\<close> and
  \<open>axios.post("http://localhost:8000/parse-resume/", { url: fileUrl }, { timeout: 60000 })\<close>.
\<close>

definition axios_get_health :: "world \<Rightarrow> (js_exn + unit) \<times> world" where
  "axios_get_health w =
     ((case health_get w 0 of None \<Rightarrow> Inr () | Some error \<Rightarrow> Inl error),
      w\<lparr>trace := trace w @ [HealthProbe], health_get := health_get w \<circ> Suc\<rparr>)"

definition axios_post_parse :: "string \<Rightarrow> world \<Rightarrow> (js_exn + http_response) \<times> world" where
  "axios_post_parse fileUrl w =
     (parse_post w 0,
      w\<lparr>trace := trace w @ [ParseRequest fileUrl], parse_post := parse_post w \<circ> Suc\<rparr>)"

definition isPythonServiceAvailable :: "world \<Rightarrow> (js_exn + bool) \<times> world" where
  "isPythonServiceAvailable w =
     (case axios_get_health w of
        (Inr u, w1) \<Rightarrow> (Inr True, w1)
      | (Inl error, w1) \<Rightarrow> (Inr False, w1))"

definition sendUrlToPythonService :: "string \<Rightarrow> world \<Rightarrow> (js_exn + jsval) \<times> world" where
  "sendUrlToPythonService fileUrl w =
     (case isPythonServiceAvailable w of
        (Inl error, w1) \<Rightarrow> (Inl error, w1)
      | (Inr available, w1) \<Rightarrow>
          if \<not> available then (Inr JNull, w1)
          else
            (case axios_post_parse fileUrl w1 of
               (Inr response, w2) \<Rightarrow> (Inr (resp_data response), w2)
             | (Inl error, w2) \<Rightarrow> (Inr JNull, w2)))"

section \<open>The object storage client\<close>

text \<open>\<open>FileInput\<close>: the bytes, and the declared type of a file or blob.\<close>

datatype FileInput =
    Buffer "nat list"
  | FileWithBuffer "nat list" "string option"
  | Blob "nat list" string

fun file_buffer :: "FileInput \<Rightarrow> nat list" where
  "file_buffer (Buffer bytes) = bytes"
| "file_buffer (FileWithBuffer bytes t) = bytes"
| "file_buffer (Blob bytes t) = bytes"

fun content_type :: "FileInput \<Rightarrow> string" where
  "content_type (Buffer bytes) = ''application/octet-stream''"
| "content_type (FileWithBuffer bytes t) =
     (case t of None \<Rightarrow> ''application/octet-stream''
      | Some s \<Rightarrow> if s = [] then ''application/octet-stream'' else s)"
| "content_type (Blob bytes t) = (if t = [] then ''application/octet-stream'' else t)"

text \<open>\<open>s3Client.send(new PutObjectCommand(...))\<close>\<close>

definition s3Client_send ::
  "string \<Rightarrow> nat list \<Rightarrow> string \<Rightarrow> world \<Rightarrow> (js_exn + unit) \<times> world" where
  "s3Client_send fileKey body contentType w =
     ((case s3_send w 0 of None \<Rightarrow> Inr () | Some error \<Rightarrow> Inl error),
      w\<lparr>trace := trace w @ [S3Put fileKey body contentType], s3_send := s3_send w \<circ> Suc\<rparr>)"

text \<open>The \<open>try\<close> block of \<open>uploadFile\<close>; the result is \<open>{ fileUrl, pythonResponse }\<close>.\<close>

definition upload_try ::
  "FileInput \<Rightarrow> string \<Rightarrow> bool \<Rightarrow> world \<Rightarrow> (js_exn + string \<times> jsval) \<times> world" where
  "upload_try file fileName sendToPython w =
     (case new_Date w of
        (now, w1) \<Rightarrow>
          let fileKey = ''applications/'' @ show_int (getTime now) @ ''-'' @ fileName in
          (case s3Client_send fileKey (file_buffer file) (content_type file) w1 of
             (Inl error, w2) \<Rightarrow> (Inl error, w2)
           | (Inr u, w2) \<Rightarrow>
               let fileUrl = ''https://'' @ AWS_S3_BUCKET_NAME w2 @ ''.s3.'' @ AWS_REGION w2 @
                             ''.amazonaws.com/'' @ fileKey in
               if sendToPython then
                 (case sendUrlToPythonService fileUrl w2 of
                    (Inr pythonResponse, w3) \<Rightarrow> (Inr (fileUrl, pythonResponse), w3)
                  | (Inl error, w3) \<Rightarrow> (Inr (fileUrl, JNull), w3))
               else (Inr (fileUrl, JNull), w2)))"

definition uploadFile ::
  "FileInput \<Rightarrow> string \<Rightarrow> bool \<Rightarrow> world \<Rightarrow> (js_exn + string \<times> jsval) \<times> world" where
  "uploadFile file fileName sendToPython w =
     (if AWS_S3_BUCKET_NAME w = []
      then (Inl (Error ''AWS_S3_BUCKET_NAME is not defined in environment variables''), w)
      else
        (case upload_try file fileName sendToPython w of
           (Inr r, w1) \<Rightarrow> (Inr r, w1)
         | (Inl error, w1) \<Rightarrow>
             (Inl (Error (''Failed to upload file: '' @ exn_name error @ '': '' @
                          exn_message error)), w1)))"

section \<open>The document store\<close>

text \<open>
  \<open>dbConnect()\<close>, \<open>new Application(...)\<close> (which draws the \<open>_id\<close> and applies the
  schema), \<open>application.save()\<close> and \<open>Application.findById(id)\<close>. A save that succeeds
  writes the document under its id; a save that fails (a validator of the schema, the
  connection) writes nothing.
\<close>

definition dbConnect :: "world \<Rightarrow> (js_exn + unit) \<times> world" where
  "dbConnect w =
     ((case db_connect w 0 of None \<Rightarrow> Inr () | Some error \<Rightarrow> Inl error),
      w\<lparr>trace := trace w @ [DbConnect], db_connect := db_connect w \<circ> Suc\<rparr>)"

definition new_ObjectId :: "world \<Rightarrow> string \<times> world" where
  "new_ObjectId w = (object_id w 0, w\<lparr>object_id := object_id w \<circ> Suc\<rparr>)"

text \<open>
  The setters of \<open>applicationSchema\<close>: \<open>trim: true\<close> on \<open>name\<close>, \<open>email\<close> and
  \<open>phone\<close>, \<open>lowercase: true\<close> on \<open>email\<close>. Strings are taken to be ASCII: \<open>trim\<close>
  removes tabs, line feeds, vertical tabs, form feeds, carriage returns and spaces at both
  ends, \<open>toLowerCase\<close> maps \<open>A\<close> to \<open>Z\<close>.
\<close>

definition is_whitespace :: "char \<Rightarrow> bool" where
  "is_whitespace c = (c \<in> set [CHR 0x09, CHR 0x0A, CHR 0x0B, CHR 0x0C, CHR 0x0D, CHR 0x20])"

definition trim :: "string \<Rightarrow> string" where
  "trim s = rev (dropWhile is_whitespace (rev (dropWhile is_whitespace s)))"

definition toLowerCase :: "string \<Rightarrow> string" where
  "toLowerCase s =
     map (\<lambda>c. case map_of (zip ''ABCDEFGHIJKLMNOPQRSTUVWXYZ'' ''abcdefghijklmnopqrstuvwxyz'') c of
                None \<Rightarrow> c
              | Some l \<Rightarrow> l) s"

text \<open>
  The nested path \<open>parsedResume\<close> of the schema, in the order of its declaration, and its
  four array paths. Given \<open>null\<close> the document holds \<open>null\<close>. Given an object, the
  document holds the paths the object defines, each typed one as the library casts it
  (\<open>rawData\<close> is of type \<open>Mixed\<close> and kept as it is), and then an empty array for every
  array path the object leaves undefined: an array path of a schema defaults to \<open>[]\<close>.
\<close>

definition parsedResume_paths :: "string list" where
  "parsedResume_paths =
     [''fullName'', ''email'', ''github'', ''linkedin'', ''employment'', ''technicalSkills'',
      ''softSkills'', ''education'', ''rawData'']"

definition parsedResume_array_paths :: "string list" where
  "parsedResume_array_paths = [''employment'', ''technicalSkills'', ''softSkills'', ''education'']"

fun schema_parsedResume :: "(string \<Rightarrow> jsval \<Rightarrow> jsval) \<Rightarrow> jsval \<Rightarrow> jsval" where
  "schema_parsedResume cast (JObj kvs) =
     JObj (map (\<lambda>k. (k, if k = ''rawData'' then js_prop (JObj kvs) k
                          else cast k (js_prop (JObj kvs) k)))
             (filter (\<lambda>k. js_prop (JObj kvs) k \<noteq> JUndefined) parsedResume_paths) @
           map (\<lambda>k. (k, JArr [] []))
             (filter (\<lambda>k. js_prop (JObj kvs) k = JUndefined) parsedResume_array_paths))"
| "schema_parsedResume cast v = v"

text \<open>
  \<open>new Application({ name, email, phone, cv, parsedResume, webhookSent, webhookResponse })\<close>:
  the document with a fresh \<open>_id\<close>, the setters applied, \<open>status\<close> at its default
  \<open>pending\<close> and \<open>notes\<close> unset.
\<close>

definition new_Application ::
  "string \<Rightarrow> string \<Rightarrow> string \<Rightarrow> cv \<Rightarrow> jsval \<Rightarrow> jsval \<Rightarrow> jsval \<Rightarrow> world
     \<Rightarrow> application \<times> world" where
  "new_Application name email phone cv' parsedResume webhookSent webhookResponse w =
     (case new_ObjectId w of
        (oid, w1) \<Rightarrow>
          (\<lparr>app_id = oid, app_name = trim name, app_email = toLowerCase (trim email),
            app_phone = trim phone, app_cv = cv',
            app_parsedResume = schema_parsedResume (schema_cast w) parsedResume,
            app_status = pending, app_webhookSent = webhookSent,
            app_webhookResponse = webhookResponse, app_notes = None\<rparr>, w1))"

definition application_save :: "application \<Rightarrow> world \<Rightarrow> (js_exn + unit) \<times> world" where
  "application_save a w =
     (case db_save w 0 of
        Some error \<Rightarrow>
          (Inl error, w\<lparr>trace := trace w @ [DbSave a], db_save := db_save w \<circ> Suc\<rparr>)
      | None \<Rightarrow>
          (Inr (), w\<lparr>trace := trace w @ [DbSave a], db_save := db_save w \<circ> Suc,
                     store := AList.update (app_id a) a (store w)\<rparr>))"

definition findById :: "string \<Rightarrow> world \<Rightarrow> (js_exn + application option) \<times> world" where
  "findById id' w =
     ((case db_find w 0 of None \<Rightarrow> Inr (map_of (store w) id') | Some error \<Rightarrow> Inl error),
      w\<lparr>trace := trace w @ [DbFindById id'], db_find := db_find w \<circ> Suc\<rparr>)"

section \<open>The submission handler\<close>

text \<open>
  The multipart form as the handler reads it: \<open>formData.get\<close> yields \<open>null\<close> for a
  field that is not there; the handler casts the three text fields to \<open>string\<close> and
  \<open>cv\<close> to \<open>File | null\<close>.
\<close>

record File =
  file_name :: string
  file_type :: string
  file_size :: int
  file_bytes :: "nat list"

record form_data =
  form_name :: "string option"
  form_email :: "string option"
  form_phone :: "string option"
  form_cv :: "File option"

text \<open>\<open>!v\<close> for a form field: \<open>null\<close> or the empty string.\<close>

definition missing :: "string option \<Rightarrow> bool" where
  "missing v = (v = None \<or> v = Some [])"

text \<open>\<open>NextResponse.json(body, { status })\<close>; the status is 200 when none is given.\<close>

record next_response =
  status_code :: int
  json_body :: jsval

definition NextResponse_json :: "(string \<times> jsval) list \<Rightarrow> int \<Rightarrow> next_response" where
  "NextResponse_json body code = \<lparr>status_code = code, json_body = JObj body\<rparr>"

text \<open>\<open>s.includes(t)\<close>\<close>

fun string_includes :: "string \<Rightarrow> string \<Rightarrow> bool" where
  "string_includes [] t = (t = [])"
| "string_includes (c # cs) t = (take (length t) (c # cs) = t \<or> string_includes cs t)"

text \<open>
  The own enumerable properties that an object spread \<open>{...v}\<close> copies: the entries
  of an object, the indexed elements and then the named properties of an array, the
  characters of a string, nothing for any other value.
\<close>

fun spread :: "jsval \<Rightarrow> (string \<times> jsval) list" where
  "spread (JObj kvs) = kvs"
| "spread (JArr xs ps) = zip (map show_nat [0 ..< length xs]) xs @ ps"
| "spread (JStr s) = zip (map show_nat [0 ..< length s]) (map (\<lambda>c. JStr [c]) s)"
| "spread v = []"

text \<open>
  The upload with its one retry (the inner \<open>try\<close>/\<open>catch (uploadError)\<close>): the
  result is \<open>(fileUrl, pythonResponse)\<close>, and \<open>pythonResponse\<close> stays \<open>undefined\<close>
  on the retry path.
\<close>

definition upload_with_retry ::
  "FileInput \<Rightarrow> string \<Rightarrow> world \<Rightarrow> (js_exn + string \<times> jsval) \<times> world" where
  "upload_with_retry fileBlob fileName w =
     (case uploadFile fileBlob fileName True w of
        (Inr (fileUrl, pythonResponse), w1) \<Rightarrow> (Inr (fileUrl, pythonResponse), w1)
      | (Inl uploadError, w1) \<Rightarrow>
          if string_includes (exn_message uploadError) ''Python service'' then
            (case uploadFile fileBlob fileName False w1 of
               (Inr (fileUrl, r), w2) \<Rightarrow> (Inr (fileUrl, JUndefined), w2)
             | (Inl error, w2) \<Rightarrow> (Inl error, w2))
          else (Inl uploadError, w1))"

text \<open>
  The structural projection: the \<open>try\<close> block entered when the parser response has a
  truthy \<open>parsed_data\<close>. It throws when \<open>JSON.parse\<close> throws, and at
  \<open>parsedData.fullName\<close> when \<open>JSON.parse\<close> yields \<open>null\<close>. The result is
  \<open>(parsedResume, webhookResult)\<close>. The notifier the handler imports is the parameter
  \<open>notify\<close>, so that it can be stated what the handler passes to it; the handler itself
  is the instance at \<open>sendWebhookNotification\<close>.
\<close>

type_synonym notifier =
  "jsval \<Rightarrow> jsval \<Rightarrow> environment \<Rightarrow> world \<Rightarrow> (js_exn + jsval) \<times> world"

definition parse_parsed_data :: "(string \<Rightarrow> js_exn + jsval) \<Rightarrow> jsval \<Rightarrow> js_exn + jsval" where
  "parse_parsed_data parse parsed_data =
     (case (case parsed_data of JStr s \<Rightarrow> parse s | _ \<Rightarrow> Inr parsed_data) of
        Inl error \<Rightarrow> Inl error
      | Inr parsedData \<Rightarrow>
          if nullish parsedData
          then Inl (TypeError ''Cannot read properties of null (reading fullName)'')
          else Inr parsedData)"

definition project_and_notify ::
  "notifier \<Rightarrow> jsval \<Rightarrow> string \<Rightarrow> string \<Rightarrow> world \<Rightarrow> (js_exn + jsval \<times> jsval) \<times> world" where
  "project_and_notify notify parsed_data email fileUrl w =
     (case parse_parsed_data (json_parse w) parsed_data of
        Inl error \<Rightarrow> (Inl error, w)
      | Inr parsedData \<Rightarrow>
          let parsedResume = JObj
                [(''fullName'', js_prop parsedData ''fullName''),
                 (''email'', js_or (js_prop parsedData ''email'') (JStr email)),
                 (''github'', js_prop parsedData ''github''),
                 (''linkedin'', js_prop parsedData ''linkedin''),
                 (''employment'', js_prop parsedData ''employment''),
                 (''technicalSkills'', js_prop parsedData ''technicalSkills''),
                 (''softSkills'', js_prop parsedData ''softSkills''),
                 (''education'', js_prop parsedData ''education''),
                 (''rawData'', parsed_data)];
              webhookData = JObj (AList.update ''cvUrl'' (JStr fileUrl) (spread parsedData))
          in
          (case notify webhookData
                  (js_or (js_prop parsedData ''email'') (JStr email)) Testing w of
             (Inl error, w1) \<Rightarrow> (Inl error, w1)
           | (Inr webhookResult, w1) \<Rightarrow> (Inr (parsedResume, webhookResult), w1)))"

text \<open>
  Lines 72 to 126 of the handler: \<open>parsedResume\<close> and \<open>webhookResult\<close> start
  \<open>null\<close>; the \<open>catch (parseError)\<close> block stores the raw payload alone and sends
  the notification with it.
\<close>

definition process_parsed_with ::
  "notifier \<Rightarrow> jsval \<Rightarrow> string \<Rightarrow> string \<Rightarrow> world \<Rightarrow> (jsval \<times> jsval) \<times> world" where
  "process_parsed_with notify pythonResponse email fileUrl w =
     (if truthy (js_and pythonResponse (js_prop pythonResponse ''parsed_data'')) then
        (let parsed_data = js_prop pythonResponse ''parsed_data'' in
         case project_and_notify notify parsed_data email fileUrl w of
           (Inr r, w1) \<Rightarrow> (r, w1)
         | (Inl parseError, w1) \<Rightarrow>
             let parsedResume = JObj [(''rawData'', parsed_data)] in
             (case notify (JObj [(''rawData'', parsed_data)]) (JStr email) Testing w1 of
                (Inr webhookResult, w2) \<Rightarrow> ((parsedResume, webhookResult), w2)
              | (Inl webhookError, w2) \<Rightarrow> ((parsedResume, JNull), w2)))
      else ((JNull, JNull), w))"

definition process_parsed ::
  "jsval \<Rightarrow> string \<Rightarrow> string \<Rightarrow> world \<Rightarrow> (jsval \<times> jsval) \<times> world" where
  "process_parsed pythonResponse email fileUrl w =
     process_parsed_with sendWebhookNotification pythonResponse email fileUrl w"

text \<open>The inner \<open>try\<close> block of \<open>POST\<close>, after the validation.\<close>

definition process_submission ::
  "string \<Rightarrow> string \<Rightarrow> string \<Rightarrow> File \<Rightarrow> world \<Rightarrow> (js_exn + next_response) \<times> world" where
  "process_submission name email phone cvFile w =
     (let fileBlob = Blob (file_bytes cvFile) (file_type cvFile);
          fileName = file_name cvFile in
      case upload_with_retry fileBlob fileName w of
        (Inl error, w1) \<Rightarrow> (Inl error, w1)
      | (Inr (fileUrl, pythonResponse), w1) \<Rightarrow>
          (case dbConnect w1 of
             (Inl error, w2) \<Rightarrow> (Inl error, w2)
           | (Inr u, w2) \<Rightarrow>
               (case process_parsed pythonResponse email fileUrl w2 of
                  ((parsedResume, webhookResult), w3) \<Rightarrow>
                    (case new_Application name email phone
                            \<lparr>cv_fileName = file_name cvFile,
                             cv_fileType = file_type cvFile,
                             cv_fileSize = file_size cvFile,
                             cv_url = fileUrl,
                             cv_pythonAnalysis = pythonResponse\<rparr>
                            parsedResume
                            (js_or (js_opt_prop webhookResult ''success'') (JBool False))
                            webhookResult w3 of
                       (application, w4) \<Rightarrow>
                         (case application_save application w4 of
                            (Inl error, w5) \<Rightarrow> (Inl error, w5)
                          | (Inr u', w5) \<Rightarrow>
                              (Inr (NextResponse_json
                                      [(''success'', JBool True),
                                       (''message'', JStr ''Application submitted successfully''),
                                       (''applicationId'', JStr (app_id application)),
                                       (''webhookSent'',
                                        js_or (js_opt_prop webhookResult ''success'')
                                          (JBool False))]
                                      201), w5))))))"

text \<open>
  \<open>POST\<close> of \<open>/api/applications\<close>. The request is what \<open>request.formData()\<close>
  gives: the form, or the exception it rejects with.
\<close>

definition POST_applications ::
  "js_exn + form_data \<Rightarrow> world \<Rightarrow> next_response \<times> world" where
  "POST_applications request w =
     (case request of
        Inl error \<Rightarrow>
          (NextResponse_json [(''error'', JStr ''Error processing your application'')] 500, w)
      | Inr formData \<Rightarrow>
          if missing (form_name formData) \<or> missing (form_email formData) \<or>
             missing (form_phone formData) \<or> form_cv formData = None
          then (NextResponse_json [(''error'', JStr ''Missing required fields'')] 400, w)
          else
            (case (form_name formData, form_email formData, form_phone formData,
                   form_cv formData) of
               (Some name, Some email, Some phone, Some cvFile) \<Rightarrow>
                 (case process_submission name email phone cvFile w of
                    (Inr response, w1) \<Rightarrow> (response, w1)
                  | (Inl uploadError, w1) \<Rightarrow>
                      (NextResponse_json
                         [(''error'', JStr (''Error processing application: '' @
                                            exn_message uploadError))] 500, w1))
             | _ \<Rightarrow>
                 (NextResponse_json [(''error'', JStr ''Missing required fields'')] 400, w)))"

section \<open>The resend-webhook handler\<close>

text \<open>
  Lines 27 to 62: the data to send. The assignment \<open>data.cvUrl = application.cv.url\<close>
  throws on a primitive and on \<open>null\<close>; it acts on the object the loaded document
  holds, which \<open>save\<close> does not write back (only the two webhook fields are set
  through the document).
\<close>

definition resend_data :: "(string \<Rightarrow> js_exn + jsval) \<Rightarrow> application \<Rightarrow> jsval" where
  "resend_data parse application =
     (let parsedResume = app_parsedResume application;
          rawData = js_opt_prop parsedResume ''rawData'' in
      if truthy rawData then
        (case (case (case rawData of JStr s \<Rightarrow> parse s | _ \<Rightarrow> Inr rawData) of
                 Inl e \<Rightarrow> Inl e
               | Inr data \<Rightarrow> js_set data ''cvUrl'' (JStr (cv_url (app_cv application)))) of
           Inr data \<Rightarrow> data
         | Inl e \<Rightarrow>
             JObj [(''fullName'', js_or (js_opt_prop parsedResume ''fullName'')
                                    (JStr (app_name application))),
                   (''email'', js_or (js_opt_prop parsedResume ''email'')
                                 (JStr (app_email application))),
                   (''github'', js_opt_prop parsedResume ''github''),
                   (''linkedin'', js_opt_prop parsedResume ''linkedin''),
                   (''employment'', js_opt_prop parsedResume ''employment''),
                   (''technicalSkills'', js_opt_prop parsedResume ''technicalSkills''),
                   (''softSkills'', js_opt_prop parsedResume ''softSkills''),
                   (''education'', js_opt_prop parsedResume ''education''),
                   (''cvUrl'', JStr (cv_url (app_cv application)))])
      else
        JObj [(''fullName'', JStr (app_name application)),
              (''email'', JStr (app_email application)),
              (''cvUrl'', JStr (cv_url (app_cv application)))])"

text \<open>The \<open>try\<close> block of \<open>POST\<close> of \<open>/api/applications/resend-webhook/[id]\<close>.\<close>

definition resend_try :: "string \<Rightarrow> world \<Rightarrow> (js_exn + next_response) \<times> world" where
  "resend_try id' w =
     (case dbConnect w of
        (Inl error, w1) \<Rightarrow> (Inl error, w1)
      | (Inr u, w1) \<Rightarrow>
          (case findById id' w1 of
             (Inl error, w2) \<Rightarrow> (Inl error, w2)
           | (Inr None, w2) \<Rightarrow>
               (Inr (NextResponse_json [(''error'', JStr ''Application not found'')] 404), w2)
           | (Inr (Some application), w2) \<Rightarrow>
               let email = JStr (app_email application);
                   data = resend_data (json_parse w2) application in
               (case sendWebhookNotification data email Prod w2 of
                  (Inl error, w3) \<Rightarrow> (Inl error, w3)
                | (Inr webhookResult, w3) \<Rightarrow>
                    (case application_save
                            (application\<lparr>app_webhookSent := js_prop webhookResult ''success'',
                                          app_webhookResponse := webhookResult\<rparr>) w3 of
                       (Inl error, w4) \<Rightarrow> (Inl error, w4)
                     | (Inr u', w4) \<Rightarrow>
                         (Inr (NextResponse_json
                                 [(''success'', JBool True),
                                  (''message'', JStr ''Webhook resent successfully''),
                                  (''webhookResult'', webhookResult)] 200), w4)))))"

definition POST_resend_webhook :: "string \<Rightarrow> world \<Rightarrow> next_response \<times> world" where
  "POST_resend_webhook id' w =
     (case resend_try id' w of
        (Inr response, w1) \<Rightarrow> (response, w1)
      | (Inl error, w1) \<Rightarrow>
          (NextResponse_json [(''error'', JStr ''Error resending webhook'')] 500, w1))"

section \<open>Observations and sample worlds\<close>

text \<open>\<open>payload.cv_data.personal_info[k]\<close> and \<open>payload.cv_data\<close>.\<close>

definition cv_data_of :: "jsval \<Rightarrow> jsval" where
  "cv_data_of payload = js_prop payload ''cv_data''"

definition personal_info :: "jsval \<Rightarrow> string \<Rightarrow> jsval" where
  "personal_info payload k = js_prop (js_prop (cv_data_of payload) ''personal_info'') k"

text \<open>A payload with the key \<open>metadata.processed_timestamp\<close> removed.\<close>

fun delete_key :: "string \<Rightarrow> jsval \<Rightarrow> jsval" where
  "delete_key k (JObj kvs) = JObj (AList.delete k kvs)"
| "delete_key k v = v"

fun without_timestamp :: "jsval \<Rightarrow> jsval" where
  "without_timestamp (JObj kvs) =
     JObj (map (\<lambda>(k, v). (k, if k = ''metadata'' then delete_key ''processed_timestamp'' v else v))
             kvs)"
| "without_timestamp v = v"

text \<open>The delays of the \<open>Sleep\<close> events of a trace, in order.\<close>

fun sleeps :: "event list \<Rightarrow> int list" where
  "sleeps [] = []"
| "sleeps (Sleep d # es) = d # sleeps es"
| "sleeps (e # es) = sleeps es"

text \<open>The payloads of the \<open>WebhookPost\<close> events of a trace, in order.\<close>

fun posts :: "event list \<Rightarrow> jsval list" where
  "posts [] = []"
| "posts (WebhookPost payload email # es) = payload # posts es"
| "posts (e # es) = posts es"

text \<open>
  The events of \<open>n\<close> failed attempts of \<open>retryWebhook\<close> in world \<open>w\<close>: each one posts
  the payload built at its own clock reading (nothing when \<open>data\<close> cannot be read) and
  then sleeps.
\<close>

definition failed_attempts ::
  "jsval \<Rightarrow> jsval \<Rightarrow> int \<Rightarrow> environment \<Rightarrow> world \<Rightarrow> nat \<Rightarrow> event list" where
  "failed_attempts data email delay environment w n =
     concat (map (\<lambda>k. (if nullish data then []
                         else [WebhookPost
                                 (payload_of data email environment (toISOString (clock w k)))
                                 email]) @ [Sleep delay])
               [0 ..< n])"

text \<open>
  A sample world: the clock starts at the epoch and shows one millisecond later from the
  second reading on, every outside call succeeds, the store is empty, and
  \<open>JSON.parse\<close> accepts the texts \<open>{}\<close> and \<open>null\<close> only.
\<close>

definition sample_clock :: "nat \<Rightarrow> instant" where
  "sample_clock n =
     (if n = 0 then Instant 0 ''1970-01-01T00:00:00.000Z''
      else Instant 1 ''1970-01-01T00:00:00.001Z'')"

definition sample_parse :: "string \<Rightarrow> js_exn + jsval" where
  "sample_parse s =
     (if s = ''{}'' then Inr (JObj [])
      else if s = ''null'' then Inr JNull
      else Inl (JsError ''SyntaxError'' ''Unexpected token'' None))"

definition sample_world :: world where
  "sample_world =
     \<lparr>trace = [], store = [], clock = sample_clock,
      s3_send = (\<lambda>n. None), health_get = (\<lambda>n. None),
      parse_post = (\<lambda>n. Inr (HttpResponse 200 (JObj [(''parsed_data'', JStr ''{}'')]))),
      webhook_post = (\<lambda>n. Inr (HttpResponse 200 (JStr ''ok''))),
      db_connect = (\<lambda>n. None), db_find = (\<lambda>n. None), db_save = (\<lambda>n. None),
      object_id = (\<lambda>n. ''65f0c0ffee'' @ show_nat n), json_parse = sample_parse,
      schema_cast = (\<lambda>k v. v),
      AWS_S3_BUCKET_NAME = ''cv-bucket'', AWS_REGION = ''eu-west-1''\<rparr>"

definition timeout_error :: js_exn where
  "timeout_error = JsError ''AxiosError'' ''timeout of 10000ms exceeded'' None"

definition unavailable_error :: js_exn where
  "unavailable_error =
     JsError ''AxiosError'' ''Request failed with status code 503''
       (Some (HttpResponse 503 (JStr ''Service Unavailable'')))"

definition sample_application :: application where
  "sample_application =
     \<lparr>app_id = ''65f0c0ffee0'', app_name = ''Ada'', app_email = ''ada@example.com'',
      app_phone = ''1234567890'',
      app_cv = \<lparr>cv_fileName = ''cv.pdf'', cv_fileType = ''application/pdf'',
                cv_fileSize = 2048,
                cv_url = ''https://cv-bucket.s3.eu-west-1.amazonaws.com/applications/0-cv.pdf'',
                cv_pythonAnalysis = JNull\<rparr>,
      app_parsedResume = JNull, app_status = pending, app_webhookSent = JBool False,
      app_webhookResponse = JNull, app_notes = None\<rparr>"

definition flaky_world :: world where
  "flaky_world =
     sample_world\<lparr>webhook_post :=
       (\<lambda>n. if n < 2 then Inl timeout_error else Inr (HttpResponse 200 (JStr ''ok'')))\<rparr>"

definition down_world :: world where
  "down_world = sample_world\<lparr>webhook_post := (\<lambda>n. Inl unavailable_error)\<rparr>"

text \<open>
  The error message of the attempt that consumes answer \<open>k\<close> of the webhook, when that
  attempt fails; and the value \<open>retryWebhook\<close> returns once the attempts are used up.
\<close>

definition attempt_error :: "jsval \<Rightarrow> world \<Rightarrow> nat \<Rightarrow> string" where
  "attempt_error data w k =
     (if nullish data then ''Cannot read properties of undefined (reading fullName)''
      else case webhook_post w k of Inl error \<Rightarrow> exn_message error | Inr response \<Rightarrow> [])"

definition exhausted_result :: "int \<Rightarrow> last_error \<Rightarrow> jsval" where
  "exhausted_result retries lastError =
     JObj [(''success'', JBool False),
           (''error'', JStr (''Failed after '' @ show_int retries @
              '' attempts. Last error: '' @ last_error_string lastError))]"

text \<open>Sample inputs: a parsed resume, a stored record base, a form, and worlds built on
  \<open>sample_world\<close>.\<close>

definition sample_data :: jsval where
  "sample_data =
     JObj [(''fullName'', JStr ''Ada''), (''github'', JStr ''''),
           (''employment'', JArr [] [])]"

definition stored_world :: world where
  "stored_world = sample_world\<lparr>store := [(''65f0c0ffee0'', sample_application)]\<rparr>"

definition stored_down_world :: world where
  "stored_down_world = stored_world\<lparr>webhook_post := (\<lambda>n. Inl unavailable_error)\<rparr>"

text \<open>
  The storage key \<open>uploadFile\<close> draws in world \<open>w\<close> for a file name, and the public URL it
  returns for it.
\<close>

definition upload_key :: "world \<Rightarrow> string \<Rightarrow> string" where
  "upload_key w fileName = ''applications/'' @ show_int (getTime (clock w 0)) @ ''-'' @ fileName"

definition upload_url :: "world \<Rightarrow> string \<Rightarrow> string" where
  "upload_url w fileName =
     ''https://'' @ AWS_S3_BUCKET_NAME w @ ''.s3.'' @ AWS_REGION w @ ''.amazonaws.com/'' @
     upload_key w fileName"

text \<open>A world whose parser answers with a \<open>parsed_data\<close> that is not JSON.\<close>

definition garbled_world :: world where
  "garbled_world =
     sample_world\<lparr>parse_post :=
         (\<lambda>n. Inr (HttpResponse 200 (JObj [(''parsed_data'', JStr ''<html>'')]))),
       object_id := (\<lambda>n. ''65f0c0ffee65f0c0ffee0000'')\<rparr>"

definition sample_form :: form_data where
  "sample_form =
     \<lparr>form_name = Some ''Ada'', form_email = Some ''ada@example.com'',
      form_phone = Some ''1234567890'',
      form_cv = Some \<lparr>file_name = ''cv.pdf'', file_type = ''application/pdf'',
                       file_size = 3, file_bytes = [37, 80, 68]\<rparr>\<rparr>"

section \<open>The notifier: what one call does\<close>

lemma js_prop_failure_result [simp]:
  "js_prop (failure_result error) ''success'' = JBool False"
  "js_prop (failure_result error) ''error'' = JStr (exn_message error)"
  by (simp_all add: failure_result_def)

lemma js_prop_success_result [simp]:
  "js_prop (success_result response) ''success'' = JBool True"
  by (simp add: success_result_def)

lemma build_payload_nullish:
  "nullish data \<Longrightarrow> build_payload data email environment w =
     (Inl (TypeError ''Cannot read properties of undefined (reading fullName)''), w)"
  by (simp add: build_payload_def)

lemma build_payload_readable:
  "\<not> nullish data \<Longrightarrow> build_payload data email environment w =
     (Inr (payload_of data email environment (toISOString (clock w 0))),
      w\<lparr>clock := clock w \<circ> Suc\<rparr>)"
  by (simp add: build_payload_def new_Date_def)

lemma sendWebhookNotification_nullish:
  "nullish data \<Longrightarrow> sendWebhookNotification data email environment w =
     (Inr (failure_result (TypeError ''Cannot read properties of undefined (reading fullName)'')), w)"
  by (simp add: sendWebhookNotification_def build_payload_nullish)

lemma sendWebhookNotification_readable:
  "\<not> nullish data \<Longrightarrow> sendWebhookNotification data email environment w =
     (Inr (case webhook_post w 0 of Inl error \<Rightarrow> failure_result error
           | Inr response \<Rightarrow> success_result response),
      w\<lparr>clock := clock w \<circ> Suc,
        trace := trace w @ [WebhookPost (payload_of data email environment (toISOString (clock w 0))) email],
        webhook_post := webhook_post w \<circ> Suc\<rparr>)"
  by (simp add: sendWebhookNotification_def build_payload_readable axios_post_webhook_def
      split: sum.splits)

lemma sendWebhookNotification_returns:
  "\<exists>result. fst (sendWebhookNotification data email environment w) = Inr result"
  by (cases "nullish data")
     (simp_all add: sendWebhookNotification_nullish sendWebhookNotification_readable)

lemma personal_info_payload_of:
  "personal_info (payload_of data email environment t) ''name'' = js_or (js_prop data ''fullName'') (JStr [])"
  "personal_info (payload_of data email environment t) ''email'' = js_or (js_prop data ''email'') email"
  "personal_info (payload_of data email environment t) ''github'' = js_or (js_prop data ''github'') (JStr [])"
  "personal_info (payload_of data email environment t) ''linkedin'' = js_or (js_prop data ''linkedin'') (JStr [])"
  by (simp_all add: personal_info_def cv_data_of_def payload_of_def Let_def)

lemma without_timestamp_payload_of:
  "without_timestamp (payload_of data email environment t1) =
   without_timestamp (payload_of data email environment t2)"
  by (simp add: payload_of_def Let_def)

lemma has_work_experience:
  "has_key (cv_data_of (payload_of data email environment t)) ''work_experience'' =
     truthy (js_prop data ''employment'')"
  by (simp add: cv_data_of_def payload_of_def Let_def)

lemma work_experience_value:
  "truthy (js_prop data ''employment'') \<Longrightarrow>
   js_prop (cv_data_of (payload_of data email environment t)) ''work_experience'' =
     js_prop data ''employment''"
  by (simp add: cv_data_of_def payload_of_def Let_def)

lemma has_key_js_prop: "\<not> has_key v k \<Longrightarrow> js_prop v k = JUndefined"
  by (cases v) (simp_all add: iffD2[OF map_of_eq_None_iff])

section \<open>The retry loop\<close>

lemma concat_map_upt_Suc:
  "concat (map f [0 ..< Suc n]) = f 0 @ concat (map (\<lambda>k. f (Suc k)) [0 ..< n])"
proof -
  have "[0 ..< Suc n] = 0 # map Suc [0 ..< n]"
    by (simp add: upt_conv_Cons map_Suc_upt del: upt_Suc)
  then show ?thesis by (simp add: comp_def del: upt_Suc)
qed

lemma failed_attempts_0 [simp]: "failed_attempts data email delay environment w 0 = []"
  by (simp add: failed_attempts_def)

lemma failed_attempts_Suc_nullish:
  "nullish data \<Longrightarrow>
   failed_attempts data email delay environment w (Suc m) =
     Sleep delay # failed_attempts data email delay environment (sleep delay w) m"
  unfolding failed_attempts_def by (subst concat_map_upt_Suc) (simp add: sleep_def)

lemma failed_attempts_Suc_readable:
  "\<not> nullish data \<Longrightarrow>
   failed_attempts data email delay environment w (Suc m) =
     WebhookPost (payload_of data email environment (toISOString (clock w 0))) email #
     Sleep delay #
     failed_attempts data email delay environment
       (sleep delay (w\<lparr>clock := clock w \<circ> Suc,
          trace := trace w @ [WebhookPost (payload_of data email environment (toISOString (clock w 0))) email],
          webhook_post := webhook_post w \<circ> Suc\<rparr>)) m"
  unfolding failed_attempts_def by (subst concat_map_upt_Suc) (simp add: sleep_def)

lemma retry_loop_done:
  "\<not> attempt < retries \<Longrightarrow>
   retry_loop data email retries delay environment attempt lastError w =
     ((exhausted_result retries lastError, attempt), w)"
  by (subst retry_loop.simps) (simp add: exhausted_result_def)

lemma retry_loop_all_fail:
  "nullish data \<or> (\<forall>k<m. isl (webhook_post w k)) \<Longrightarrow> retries - attempt = int m \<Longrightarrow>
   fst (retry_loop data email retries delay environment attempt lastError w) =
     (exhausted_result retries
        (if m = 0 then lastError else LastValue (JStr (attempt_error data w (m - 1)))),
      retries) \<and>
   trace (snd (retry_loop data email retries delay environment attempt lastError w)) =
     trace w @ failed_attempts data email delay environment w m"
proof (induction m arbitrary: attempt lastError w)
  case 0
  then show ?case by (simp add: retry_loop_done)
next
  case (Suc m)
  from Suc.prems(2) have lt: "attempt < retries" and rest: "retries - (attempt + 1) = int m"
    by simp_all
  show ?case
  proof (cases "nullish data")
    case True
    let ?msg = "''Cannot read properties of undefined (reading fullName)''"
    have step: "retry_loop data email retries delay environment attempt lastError w =
        retry_loop data email retries delay environment (attempt + 1)
          (LastValue (JStr ?msg)) (sleep delay w)"
      using lt True
      by (subst retry_loop.simps)
         (simp add: sendWebhookNotification_nullish TypeError_def)
    have ih: "fst (retry_loop data email retries delay environment (attempt + 1)
                 (LastValue (JStr ?msg)) (sleep delay w)) =
        (exhausted_result retries
          (if m = 0 then LastValue (JStr ?msg)
           else LastValue (JStr (attempt_error data (sleep delay w) (m - 1)))), retries) \<and>
        trace (snd (retry_loop data email retries delay environment (attempt + 1)
                 (LastValue (JStr ?msg)) (sleep delay w))) =
          trace (sleep delay w) @ failed_attempts data email delay environment (sleep delay w) m"
      using Suc.IH [of "sleep delay w" "attempt + 1" "LastValue (JStr ?msg)"] True rest
      by simp
    show ?thesis
      using True ih
      by (simp add: step failed_attempts_Suc_nullish attempt_error_def sleep_def)
  next
    case False
    with Suc.prems(1) have fails: "\<forall>k<Suc m. isl (webhook_post w k)" by simp
    then obtain error where e0: "webhook_post w 0 = Inl error"
      by (cases "webhook_post w 0") auto
    let ?w1 = "sleep delay (w\<lparr>clock := clock w \<circ> Suc,
          trace := trace w @ [WebhookPost (payload_of data email environment (toISOString (clock w 0))) email],
          webhook_post := webhook_post w \<circ> Suc\<rparr>)"
    have step: "retry_loop data email retries delay environment attempt lastError w =
        retry_loop data email retries delay environment (attempt + 1)
          (LastValue (JStr (exn_message error))) ?w1"
      using lt False e0
      by (subst retry_loop.simps) (simp add: sendWebhookNotification_readable)
    have fails1: "\<forall>k<m. isl (webhook_post ?w1 k)"
      using fails by (simp add: sleep_def)
    have ih: "fst (retry_loop data email retries delay environment (attempt + 1)
                 (LastValue (JStr (exn_message error))) ?w1) =
        (exhausted_result retries
          (if m = 0 then LastValue (JStr (exn_message error))
           else LastValue (JStr (attempt_error data ?w1 (m - 1)))), retries) \<and>
        trace (snd (retry_loop data email retries delay environment (attempt + 1)
                 (LastValue (JStr (exn_message error))) ?w1)) =
          trace ?w1 @ failed_attempts data email delay environment ?w1 m"
      using Suc.IH [of ?w1 "attempt + 1" "LastValue (JStr (exn_message error))"] fails1 rest
      by blast
    have err: "attempt_error data ?w1 (m - 1) = attempt_error data w m" if "m \<noteq> 0"
      using that False by (simp add: attempt_error_def sleep_def)
    have err0: "attempt_error data w 0 = exn_message error"
      using False e0 by (simp add: attempt_error_def)
    show ?thesis
    proof (cases "m = 0")
      case True
      then show ?thesis
        using ih False err0
        by (simp add: step failed_attempts_Suc_readable sleep_def)
    next
      case m: False
      then show ?thesis
        using ih False err [OF m]
        by (simp add: step failed_attempts_Suc_readable sleep_def)
    qed
  qed
qed

lemma retry_loop_succeeds:
  "\<not> nullish data \<Longrightarrow> \<forall>k<j. isl (webhook_post w k) \<Longrightarrow> webhook_post w j = Inr response \<Longrightarrow>
   int j < retries - attempt \<Longrightarrow>
   fst (retry_loop data email retries delay environment attempt lastError w) =
     (success_result response, attempt + int j + 1) \<and>
   trace (snd (retry_loop data email retries delay environment attempt lastError w)) =
     trace w @ failed_attempts data email delay environment w j @
     [WebhookPost (payload_of data email environment (toISOString (clock w j))) email]"
proof (induction j arbitrary: attempt lastError w)
  case 0
  then show ?case
    by (subst (1 2) retry_loop.simps) (simp add: sendWebhookNotification_readable)
next
  case (Suc j)
  from Suc.prems(4) have lt: "attempt < retries" and rest: "int j < retries - (attempt + 1)"
    by simp_all
  from Suc.prems(2) obtain error where e0: "webhook_post w 0 = Inl error"
    by (cases "webhook_post w 0") auto
  let ?w1 = "sleep delay (w\<lparr>clock := clock w \<circ> Suc,
        trace := trace w @ [WebhookPost (payload_of data email environment (toISOString (clock w 0))) email],
        webhook_post := webhook_post w \<circ> Suc\<rparr>)"
  have step: "retry_loop data email retries delay environment attempt lastError w =
      retry_loop data email retries delay environment (attempt + 1)
        (LastValue (JStr (exn_message error))) ?w1"
    using lt Suc.prems(1) e0
    by (subst retry_loop.simps) (simp add: sendWebhookNotification_readable)
  have fails1: "\<forall>k<j. isl (webhook_post ?w1 k)"
    using Suc.prems(2) by (simp add: sleep_def)
  have ok1: "webhook_post ?w1 j = Inr response"
    using Suc.prems(3) by (simp add: sleep_def)
  have ih: "fst (retry_loop data email retries delay environment (attempt + 1)
               (LastValue (JStr (exn_message error))) ?w1) =
      (success_result response, attempt + 1 + int j + 1) \<and>
      trace (snd (retry_loop data email retries delay environment (attempt + 1)
               (LastValue (JStr (exn_message error))) ?w1)) =
        trace ?w1 @ failed_attempts data email delay environment ?w1 j @
        [WebhookPost (payload_of data email environment (toISOString (clock ?w1 j))) email]"
    using Suc.IH [of ?w1 "attempt + 1" "LastValue (JStr (exn_message error))"]
      Suc.prems(1) fails1 ok1 rest
    by blast
  show ?case
    using ih Suc.prems(1)
    by (simp add: step failed_attempts_Suc_readable sleep_def)
qed

section \<open>Observations on traces\<close>

lemma posts_append: "posts (xs @ ys) = posts xs @ posts ys"
  by (induction xs rule: posts.induct) simp_all

lemma sleeps_append: "sleeps (xs @ ys) = sleeps xs @ sleeps ys"
  by (induction xs rule: sleeps.induct) simp_all

lemma sleeps_failed_attempts:
  "sleeps (failed_attempts data email delay environment w n) = replicate n delay"
proof (induction n)
  case 0
  show ?case by simp
next
  case (Suc n)
  have "failed_attempts data email delay environment w (Suc n) =
        failed_attempts data email delay environment w n @
        (if nullish data then []
         else [WebhookPost (payload_of data email environment (toISOString (clock w n))) email]) @
        [Sleep delay]"
    by (simp add: failed_attempts_def)
  then show ?case
    using Suc by (simp add: sleeps_append replicate_append_same)
qed

lemma posts_failed_attempts:
  "posts (failed_attempts data email delay environment w n) =
     (if nullish data then []
      else map (\<lambda>k. payload_of data email environment (toISOString (clock w k))) [0 ..< n])"
proof (induction n)
  case 0
  show ?case by simp
next
  case (Suc n)
  have "failed_attempts data email delay environment w (Suc n) =
        failed_attempts data email delay environment w n @
        (if nullish data then []
         else [WebhookPost (payload_of data email environment (toISOString (clock w n))) email]) @
        [Sleep delay]"
    by (simp add: failed_attempts_def)
  then show ?case
    using Suc by (simp add: posts_append)
qed

lemma last_failed_attempts:
  "last (xs @ failed_attempts data email delay environment w (Suc n)) = Sleep delay"
  by (simp add: failed_attempts_def)

section \<open>Claims about the retry helper\<close>

lemma retryWebhook_all_fail:
  assumes "nullish data \<or> (\<forall>k<nat retries. isl (webhook_post w k))"
  shows "fst (retry_loop data email retries delay environment 0 (LastValue JUndefined) w) =
           (exhausted_result retries
              (if retries \<le> 0 then LastValue JUndefined
               else LastValue (JStr (attempt_error data w (nat retries - 1)))),
            max 0 retries)"
    and "trace (snd (retry_loop data email retries delay environment 0 (LastValue JUndefined) w)) =
           trace w @ failed_attempts data email delay environment w (nat retries)"
proof -
  show "fst (retry_loop data email retries delay environment 0 (LastValue JUndefined) w) =
           (exhausted_result retries
              (if retries \<le> 0 then LastValue JUndefined
               else LastValue (JStr (attempt_error data w (nat retries - 1)))),
            max 0 retries)"
  proof (cases "0 \<le> retries")
    case True
    then have "retries - 0 = int (nat retries)" by simp
    from retry_loop_all_fail [OF assms this, of email delay environment "LastValue JUndefined"]
    show ?thesis using True by auto
  next
    case False
    then show ?thesis by (simp add: retry_loop_done)
  qed
  show "trace (snd (retry_loop data email retries delay environment 0 (LastValue JUndefined) w)) =
           trace w @ failed_attempts data email delay environment w (nat retries)"
  proof (cases "0 \<le> retries")
    case True
    then have "retries - 0 = int (nat retries)" by simp
    from retry_loop_all_fail [OF assms this, of email delay environment "LastValue JUndefined"]
    show ?thesis by simp
  next
    case False
    then show ?thesis by (simp add: retry_loop_done)
  qed
qed

lemma retryWebhook_fst:
  "fst (retryWebhook data email retries delay environment w) =
   fst (fst (retry_loop data email retries delay environment 0 (LastValue JUndefined) w))"
  by (simp add: retryWebhook_def case_prod_beta)

lemma retryWebhook_snd:
  "snd (retryWebhook data email retries delay environment w) =
   snd (retry_loop data email retries delay environment 0 (LastValue JUndefined) w)"
  by (simp add: retryWebhook_def case_prod_beta)

text \<open>
  Claim C3. With \<open>retries = 3\<close>, when the notifier fails on the first two attempts and
  succeeds on the third (the data can be read, the first two POSTs reject and the third
  resolves), \<open>retryWebhook\<close> returns that successful result, has made exactly three
  attempts and has posted three times. When every attempt fails (the data cannot be read,
  or each of the first \<open>retries\<close> POSTs rejects), it returns \<open>success: false\<close> with the
  error \<open>Failed after <retries> attempts. Last error: <message of the last failure>\<close>,
  after exactly \<open>retries\<close> attempts (none when \<open>retries\<close> is not positive).
\<close>

theorem retryWebhook_success_or_aggregated_failure:
  "(\<not> nullish data \<and> webhook_post w 0 = Inl e0 \<and> webhook_post w 1 = Inl e1 \<and>
    webhook_post w 2 = Inr response \<longrightarrow>
      fst (retryWebhook data email 3 delay environment w) = success_result response \<and>
      retryWebhook_attempts data email 3 delay environment w = 3 \<and>
      length (posts (trace (snd (retryWebhook data email 3 delay environment w)))) =
        length (posts (trace w)) + 3) \<and>
   (nullish data \<or> (\<forall>k<nat retries. isl (webhook_post w k)) \<longrightarrow>
      js_prop (fst (retryWebhook data email retries delay environment w)) ''success'' =
        JBool False \<and>
      js_prop (fst (retryWebhook data email retries delay environment w)) ''error'' =
        JStr (''Failed after '' @ show_int retries @ '' attempts. Last error: '' @
              (if retries \<le> 0 then ''undefined''
               else attempt_error data w (nat retries - 1))) \<and>
      retryWebhook_attempts data email retries delay environment w = max 0 retries)"
proof (intro conjI impI)
  assume a: "\<not> nullish data \<and> webhook_post w 0 = Inl e0 \<and> webhook_post w 1 = Inl e1 \<and>
    webhook_post w 2 = Inr response"
  have fails: "\<forall>k<2. isl (webhook_post w k)"
  proof (intro allI impI)
    fix k :: nat assume "k < 2"
    then have "k = 0 \<or> k = 1" by auto
    with a show "isl (webhook_post w k)" by auto
  qed
  have "int 2 < 3 - (0::int)" by simp
  from retry_loop_succeeds [OF _ fails _ this, of data response email delay environment "LastValue JUndefined"] a
  have r: "fst (retry_loop data email 3 delay environment 0 (LastValue JUndefined) w) =
        (success_result response, 3)"
    and t: "trace (snd (retry_loop data email 3 delay environment 0 (LastValue JUndefined) w)) =
        trace w @ failed_attempts data email delay environment w 2 @
        [WebhookPost (payload_of data email environment (toISOString (clock w 2))) email]"
    by simp_all
  show "fst (retryWebhook data email 3 delay environment w) = success_result response"
    using r by (simp add: retryWebhook_fst)
  show "retryWebhook_attempts data email 3 delay environment w = 3"
    using r by (simp add: retryWebhook_attempts_def)
  show "length (posts (trace (snd (retryWebhook data email 3 delay environment w)))) =
        length (posts (trace w)) + 3"
    using t a by (simp add: retryWebhook_snd posts_append posts_failed_attempts)
next
  assume a: "nullish data \<or> (\<forall>k<nat retries. isl (webhook_post w k))"
  note r = retryWebhook_all_fail(1) [OF a, of email delay environment]
  have f: "fst (retryWebhook data email retries delay environment w) =
      exhausted_result retries
        (if retries \<le> 0 then LastValue JUndefined
         else LastValue (JStr (attempt_error data w (nat retries - 1))))"
    using r by (simp add: retryWebhook_fst)
  show "js_prop (fst (retryWebhook data email retries delay environment w)) ''success'' =
        JBool False"
    by (simp add: f exhausted_result_def)
  show "js_prop (fst (retryWebhook data email retries delay environment w)) ''error'' =
        JStr (''Failed after '' @ show_int retries @ '' attempts. Last error: '' @
              (if retries \<le> 0 then ''undefined''
               else attempt_error data w (nat retries - 1)))"
    by (simp add: f exhausted_result_def)
  show "retryWebhook_attempts data email retries delay environment w = max 0 retries"
    using r by (simp add: retryWebhook_attempts_def)
qed

theorem retryWebhook_success_or_aggregated_failure_witness:
  "fst (retryWebhook (JObj []) (JStr ''ada@example.com'') 3 2000 Testing flaky_world) =
     success_result (HttpResponse 200 (JStr ''ok'')) \<and>
   retryWebhook_attempts (JObj []) (JStr ''ada@example.com'') 3 2000 Testing flaky_world = 3 \<and>
   js_prop (fst (retryWebhook (JObj []) (JStr ''ada@example.com'') 2 2000 Testing down_world))
     ''error'' =
     JStr ''Failed after 2 attempts. Last error: Request failed with status code 503'' \<and>
   retryWebhook_attempts (JObj []) (JStr ''ada@example.com'') 2 2000 Testing down_world = 2"
  using retryWebhook_success_or_aggregated_failure
          [of "JObj []" flaky_world timeout_error timeout_error "HttpResponse 200 (JStr ''ok'')"
              "JStr ''ada@example.com''" 2000 Testing 3]
        retryWebhook_success_or_aggregated_failure
          [of "JObj []" down_world unavailable_error unavailable_error "HttpResponse 200 (JStr ''ok'')"
              "JStr ''ada@example.com''" 2000 Testing 2]
  by (simp add: flaky_world_def down_world_def sample_world_def nullish_def attempt_error_def
        unavailable_error_def show_int_def show_nat.simps)

text \<open>
  Claim C10. When every attempt of \<open>retryWebhook\<close> fails, the helper sleeps for
  \<open>delay\<close> after each failed attempt, the last one included: the trace grows by the events
  of \<open>retries\<close> failed attempts, each ending in \<open>Sleep delay\<close>, so exactly \<open>retries\<close>
  delays elapse and the last event before the aggregated failure is returned is a sleep.
\<close>

theorem retryWebhook_sleeps_after_every_failure:
  "nullish data \<or> (\<forall>k<nat retries. isl (webhook_post w k)) \<Longrightarrow>
   trace (snd (retryWebhook data email retries delay environment w)) =
     trace w @ failed_attempts data email delay environment w (nat retries) \<and>
   sleeps (trace (snd (retryWebhook data email retries delay environment w))) =
     sleeps (trace w) @ replicate (nat retries) delay \<and>
   (0 < retries \<longrightarrow>
      last (trace (snd (retryWebhook data email retries delay environment w))) = Sleep delay)"
proof -
  assume a: "nullish data \<or> (\<forall>k<nat retries. isl (webhook_post w k))"
  have t: "trace (snd (retryWebhook data email retries delay environment w)) =
     trace w @ failed_attempts data email delay environment w (nat retries)"
    using retryWebhook_all_fail(2) [OF a] by (simp add: retryWebhook_snd)
  have l: "last (trace (snd (retryWebhook data email retries delay environment w))) = Sleep delay"
    if "0 < retries"
  proof -
    from that obtain n where "nat retries = Suc n" by (cases "nat retries") auto
    then show ?thesis using t by (simp add: last_failed_attempts)
  qed
  show ?thesis
    using t l by (simp add: sleeps_append sleeps_failed_attempts)
qed

theorem retryWebhook_sleeps_after_every_failure_witness:
  "sleeps (trace (snd (retryWebhook (JObj []) (JStr ''ada@example.com'') 3 2000 Testing down_world)))
     = [2000, 2000, 2000] \<and>
   last (trace (snd (retryWebhook (JObj []) (JStr ''ada@example.com'') 3 2000 Testing down_world)))
     = Sleep 2000 \<and>
   length (posts (trace (snd (retryWebhook (JObj []) (JStr ''ada@example.com'') 3 2000 Testing down_world))))
     = 3"
proof -
  have h: "nullish (JObj []) \<or> (\<forall>k<nat 3. isl (webhook_post down_world k))"
    by (simp add: down_world_def)
  have e: "trace down_world = []"
    by (simp add: down_world_def sample_world_def)
  have r: "\<not> nullish (JObj [])"
    by (simp add: nullish_def)
  note t = retryWebhook_sleeps_after_every_failure
             [OF h, of "JStr ''ada@example.com''" 2000 Testing]
  note t2 = t [THEN conjunct2, THEN conjunct1] and t3 = t [THEN conjunct2, THEN conjunct2]
    and t1 = t [THEN conjunct1]
  from t2 have "sleeps (trace (snd (retryWebhook (JObj []) (JStr ''ada@example.com'') 3 2000
                  Testing down_world))) = [2000, 2000, 2000]"
    by (simp add: e numeral_3_eq_3 sleeps_failed_attempts)
  moreover from t3 have "last (trace (snd (retryWebhook (JObj []) (JStr ''ada@example.com'') 3 2000
                  Testing down_world))) = Sleep 2000"
    by simp
  moreover from t1 have "length (posts (trace (snd (retryWebhook (JObj [])
                  (JStr ''ada@example.com'') 3 2000 Testing down_world)))) = 3"
    using r by (simp add: e posts_failed_attempts)
  ultimately show ?thesis by simp
qed

section \<open>Claims about the webhook payload\<close>

text \<open>
  Claim C1, as amended. The payload built (and the one posted) by
  \<open>sendWebhookNotification\<close> is a function of \<open>data\<close>, \<open>email\<close>, \<open>environment\<close> and of
  the clock reading taken during the call, which fills \<open>metadata.processed_timestamp\<close>.
  Two calls with the same arguments, made in any two worlds, build payloads that agree
  once that one key is removed, and build the same payload when the two clock readings
  have the same ISO rendering.
\<close>

theorem payload_depends_on_clock_only_in_timestamp:
  "fst (build_payload data email environment w) =
     (if nullish data
      then Inl (TypeError ''Cannot read properties of undefined (reading fullName)'')
      else Inr (payload_of data email environment (toISOString (clock w 0)))) \<and>
   posts (trace (snd (sendWebhookNotification data email environment w))) =
     posts (trace w) @
     (if nullish data then []
      else [payload_of data email environment (toISOString (clock w 0))]) \<and>
   map_sum id without_timestamp (fst (build_payload data email environment w)) =
     map_sum id without_timestamp (fst (build_payload data email environment w')) \<and>
   (toISOString (clock w 0) = toISOString (clock w' 0) \<longrightarrow>
      fst (build_payload data email environment w) =
      fst (build_payload data email environment w'))"
proof (cases "nullish data")
  case True
  then show ?thesis
    by (simp add: build_payload_nullish sendWebhookNotification_nullish)
next
  case False
  then show ?thesis
    using without_timestamp_payload_of [of data email environment
            "toISOString (clock w 0)" "toISOString (clock w' 0)"]
    by (simp add: build_payload_readable sendWebhookNotification_readable posts_append)
qed

theorem payload_depends_on_clock_only_in_timestamp_witness:
  "posts (trace (snd (sendWebhookNotification (JObj [(''fullName'', JStr ''Ada'')])
       (JStr ''ada@example.com'') Testing sample_world))) =
     [payload_of (JObj [(''fullName'', JStr ''Ada'')]) (JStr ''ada@example.com'') Testing
        ''1970-01-01T00:00:00.000Z''] \<and>
   fst (build_payload (JObj [(''fullName'', JStr ''Ada'')]) (JStr ''ada@example.com'') Testing
          sample_world) =
   fst (build_payload (JObj [(''fullName'', JStr ''Ada'')]) (JStr ''ada@example.com'') Testing
          down_world)"
proof -
  have c: "toISOString (clock sample_world 0) = ''1970-01-01T00:00:00.000Z''"
    "toISOString (clock down_world 0) = ''1970-01-01T00:00:00.000Z''"
    by (simp_all add: down_world_def sample_world_def sample_clock_def)
  have e: "trace sample_world = []"
    by (simp add: sample_world_def)
  have r: "\<not> nullish (JObj [(''fullName'', JStr ''Ada'')])"
    by (simp add: nullish_def)
  note t = payload_depends_on_clock_only_in_timestamp
          [of "JObj [(''fullName'', JStr ''Ada'')]" "JStr ''ada@example.com''" Testing
              sample_world down_world]
  from t [THEN conjunct2, THEN conjunct1]
  have "posts (trace (snd (sendWebhookNotification (JObj [(''fullName'', JStr ''Ada'')])
       (JStr ''ada@example.com'') Testing sample_world))) =
     [payload_of (JObj [(''fullName'', JStr ''Ada'')]) (JStr ''ada@example.com'') Testing
        ''1970-01-01T00:00:00.000Z'']"
    using r by (simp add: c e)
  moreover from t [THEN conjunct2, THEN conjunct2, THEN conjunct2]
  have "fst (build_payload (JObj [(''fullName'', JStr ''Ada'')]) (JStr ''ada@example.com'') Testing
          sample_world) =
   fst (build_payload (JObj [(''fullName'', JStr ''Ada'')]) (JStr ''ada@example.com'') Testing
          down_world)"
    by (simp add: c)
  ultimately show ?thesis by simp
qed

text \<open>
  Claim C1 as stated fails: two calls with identical arguments, one right after the other,
  post payloads that differ (in \<open>metadata.processed_timestamp\<close>).
\<close>

theorem payload_differs_between_calls_counterexample:
  "posts (trace (snd (sendWebhookNotification (JObj [(''fullName'', JStr ''Ada'')])
       (JStr ''ada@example.com'') Testing
       (snd (sendWebhookNotification (JObj [(''fullName'', JStr ''Ada'')])
          (JStr ''ada@example.com'') Testing sample_world))))) =
     [payload_of (JObj [(''fullName'', JStr ''Ada'')]) (JStr ''ada@example.com'') Testing
        ''1970-01-01T00:00:00.000Z'',
      payload_of (JObj [(''fullName'', JStr ''Ada'')]) (JStr ''ada@example.com'') Testing
        ''1970-01-01T00:00:00.001Z''] \<and>
   payload_of (JObj [(''fullName'', JStr ''Ada'')]) (JStr ''ada@example.com'') Testing
        ''1970-01-01T00:00:00.000Z'' \<noteq>
   payload_of (JObj [(''fullName'', JStr ''Ada'')]) (JStr ''ada@example.com'') Testing
        ''1970-01-01T00:00:00.001Z''"
  by (simp add: sendWebhookNotification_readable nullish_def sample_world_def sample_clock_def
        posts_append payload_of_def Let_def)

lemma build_payload_Inr:
  "fst (build_payload data email environment w) = Inr payload \<Longrightarrow>
   \<not> nullish data \<and> payload = payload_of data email environment (toISOString (clock w 0))"
  by (cases "nullish data") (simp_all add: build_payload_nullish build_payload_readable)

lemma js_or_absent: "\<not> has_key v k \<Longrightarrow> js_or (js_prop v k) d = d"
  by (simp add: has_key_js_prop js_or_def)

lemma js_or_string: "js_prop v k = JStr s \<Longrightarrow> js_or (js_prop v k) (JStr []) = JStr s"
  by (simp add: js_or_def)

text \<open>
  Claim C2, as amended. In the payload built from \<open>data\<close>, each of
  \<open>personal_info.name\<close>, \<open>github\<close> and \<open>linkedin\<close> is the field \<open>fullName\<close>, \<open>github\<close>,
  \<open>linkedin\<close> of \<open>data\<close> when that holds a truthy value, and the empty string otherwise:
  so it is the empty string when the field is absent, and the field itself whenever the
  field is a string. \<open>personal_info.email\<close> is \<open>data.email\<close> when that is truthy, and
  otherwise the \<open>email\<close> argument of the call (not the empty string).
\<close>

theorem personal_info_defaults:
  assumes "fst (build_payload data email environment w) = Inr payload"
  shows
  "personal_info payload ''name'' =
     (if truthy (js_prop data ''fullName'') then js_prop data ''fullName'' else JStr []) \<and>
   personal_info payload ''github'' =
     (if truthy (js_prop data ''github'') then js_prop data ''github'' else JStr []) \<and>
   personal_info payload ''linkedin'' =
     (if truthy (js_prop data ''linkedin'') then js_prop data ''linkedin'' else JStr []) \<and>
   personal_info payload ''email'' =
     (if truthy (js_prop data ''email'') then js_prop data ''email'' else email) \<and>
   (\<not> has_key data ''fullName'' \<longrightarrow> personal_info payload ''name'' = JStr []) \<and>
   (\<not> has_key data ''github'' \<longrightarrow> personal_info payload ''github'' = JStr []) \<and>
   (\<not> has_key data ''linkedin'' \<longrightarrow> personal_info payload ''linkedin'' = JStr []) \<and>
   (\<not> has_key data ''email'' \<longrightarrow> personal_info payload ''email'' = email) \<and>
   (\<forall>s. js_prop data ''fullName'' = JStr s \<longrightarrow> personal_info payload ''name'' = JStr s) \<and>
   (\<forall>s. js_prop data ''github'' = JStr s \<longrightarrow> personal_info payload ''github'' = JStr s) \<and>
   (\<forall>s. js_prop data ''linkedin'' = JStr s \<longrightarrow> personal_info payload ''linkedin'' = JStr s) \<and>
   (\<forall>s. js_prop data ''email'' = JStr s \<and> s \<noteq> [] \<longrightarrow>
        personal_info payload ''email'' = JStr s)"
proof -
  from build_payload_Inr [OF assms]
  have p: "payload = payload_of data email environment (toISOString (clock w 0))" by simp
  have cond: "personal_info payload ''name'' =
     (if truthy (js_prop data ''fullName'') then js_prop data ''fullName'' else JStr [])"
    "personal_info payload ''github'' =
     (if truthy (js_prop data ''github'') then js_prop data ''github'' else JStr [])"
    "personal_info payload ''linkedin'' =
     (if truthy (js_prop data ''linkedin'') then js_prop data ''linkedin'' else JStr [])"
    "personal_info payload ''email'' =
     (if truthy (js_prop data ''email'') then js_prop data ''email'' else email)"
    by (simp_all add: p personal_info_payload_of js_or_def)
  have absent: "\<not> has_key data ''fullName'' \<longrightarrow> personal_info payload ''name'' = JStr []"
    "\<not> has_key data ''github'' \<longrightarrow> personal_info payload ''github'' = JStr []"
    "\<not> has_key data ''linkedin'' \<longrightarrow> personal_info payload ''linkedin'' = JStr []"
    "\<not> has_key data ''email'' \<longrightarrow> personal_info payload ''email'' = email"
    by (simp_all add: p personal_info_payload_of js_or_absent)
  have present: "\<forall>s. js_prop data ''fullName'' = JStr s \<longrightarrow> personal_info payload ''name'' = JStr s"
    "\<forall>s. js_prop data ''github'' = JStr s \<longrightarrow> personal_info payload ''github'' = JStr s"
    "\<forall>s. js_prop data ''linkedin'' = JStr s \<longrightarrow> personal_info payload ''linkedin'' = JStr s"
    "\<forall>s. js_prop data ''email'' = JStr s \<and> s \<noteq> [] \<longrightarrow> personal_info payload ''email'' = JStr s"
    by (simp_all add: p personal_info_payload_of js_or_def)
  from cond absent present show ?thesis by blast
qed

theorem personal_info_defaults_witness:
  "fst (build_payload sample_data (JStr ''ada@example.com'') Testing sample_world) =
     Inr (payload_of sample_data (JStr ''ada@example.com'') Testing ''1970-01-01T00:00:00.000Z'') \<and>
   personal_info
     (payload_of sample_data (JStr ''ada@example.com'') Testing ''1970-01-01T00:00:00.000Z'')
     ''name'' = JStr ''Ada'' \<and>
   personal_info
     (payload_of sample_data (JStr ''ada@example.com'') Testing ''1970-01-01T00:00:00.000Z'')
     ''github'' = JStr '''' \<and>
   personal_info
     (payload_of sample_data (JStr ''ada@example.com'') Testing ''1970-01-01T00:00:00.000Z'')
     ''linkedin'' = JStr '''' \<and>
   personal_info
     (payload_of sample_data (JStr ''ada@example.com'') Testing ''1970-01-01T00:00:00.000Z'')
     ''email'' = JStr ''ada@example.com''"
proof -
  have b: "fst (build_payload sample_data (JStr ''ada@example.com'') Testing sample_world) =
     Inr (payload_of sample_data (JStr ''ada@example.com'') Testing ''1970-01-01T00:00:00.000Z'')"
    by (simp add: build_payload_readable nullish_def sample_data_def sample_world_def
          sample_clock_def)
  note t = personal_info_defaults [OF b]
  have d: "js_prop sample_data ''fullName'' = JStr ''Ada''"
    "js_prop sample_data ''github'' = JStr ''''"
    "\<not> has_key sample_data ''linkedin''" "\<not> has_key sample_data ''email''"
    by (simp_all add: sample_data_def)
  from t d b show ?thesis by blast
qed

text \<open>
  Claim C2 as stated fails for \<open>email\<close>: with no \<open>email\<close> field in \<open>data\<close> the payload
  carries the \<open>email\<close> argument, not the empty string.
\<close>

theorem personal_info_email_counterexample:
  "fst (build_payload (JObj []) (JStr ''ada@example.com'') Testing sample_world) =
     Inr (payload_of (JObj []) (JStr ''ada@example.com'') Testing ''1970-01-01T00:00:00.000Z'') \<and>
   \<not> has_key (JObj []) ''email'' \<and>
   personal_info
     (payload_of (JObj []) (JStr ''ada@example.com'') Testing ''1970-01-01T00:00:00.000Z'')
     ''email'' = JStr ''ada@example.com'' \<and>
   personal_info
     (payload_of (JObj []) (JStr ''ada@example.com'') Testing ''1970-01-01T00:00:00.000Z'')
     ''email'' \<noteq> JStr ''''"
  by (simp add: build_payload_readable nullish_def sample_world_def sample_clock_def
        personal_info_payload_of js_or_def)

text \<open>
  Claim C5. The key \<open>work_experience\<close> of \<open>payload.cv_data\<close> exists if and only if
  \<open>data.employment\<close> is present, that is, holds a value the test \<open>if (data.employment)\<close>
  accepts; it then holds that value. When \<open>data\<close> has no \<open>employment\<close> key the payload has
  no \<open>work_experience\<close> key at all, and every array (the declared type of the field), empty
  or not, is passed on.
\<close>

theorem work_experience_iff_employment:
  assumes "fst (build_payload data email environment w) = Inr payload"
  shows
  "(has_key (cv_data_of payload) ''work_experience'' \<longleftrightarrow> truthy (js_prop data ''employment'')) \<and>
   (truthy (js_prop data ''employment'') \<longrightarrow>
      js_prop (cv_data_of payload) ''work_experience'' = js_prop data ''employment'') \<and>
   (\<not> has_key data ''employment'' \<longrightarrow> \<not> has_key (cv_data_of payload) ''work_experience'') \<and>
   (\<forall>xs ps. js_prop data ''employment'' = JArr xs ps \<longrightarrow>
      has_key (cv_data_of payload) ''work_experience'')"
proof -
  from build_payload_Inr [OF assms]
  have p: "payload = payload_of data email environment (toISOString (clock w 0))" by simp
  have "\<not> has_key data ''employment'' \<Longrightarrow> \<not> truthy (js_prop data ''employment'')"
    by (simp add: has_key_js_prop)
  then show ?thesis
    by (auto simp: p has_work_experience work_experience_value)
qed

theorem work_experience_iff_employment_witness:
  "has_key (cv_data_of (payload_of sample_data (JStr ''ada@example.com'') Testing
      ''1970-01-01T00:00:00.000Z'')) ''work_experience'' \<and>
   js_prop (cv_data_of (payload_of sample_data (JStr ''ada@example.com'') Testing
      ''1970-01-01T00:00:00.000Z'')) ''work_experience'' = JArr [] [] \<and>
   \<not> has_key (cv_data_of (payload_of (JObj []) (JStr ''ada@example.com'') Testing
      ''1970-01-01T00:00:00.000Z'')) ''work_experience''"
proof -
  have b: "fst (build_payload sample_data (JStr ''ada@example.com'') Testing sample_world) =
     Inr (payload_of sample_data (JStr ''ada@example.com'') Testing ''1970-01-01T00:00:00.000Z'')"
    by (simp add: build_payload_readable nullish_def sample_data_def sample_world_def
          sample_clock_def)
  have b': "fst (build_payload (JObj []) (JStr ''ada@example.com'') Testing sample_world) =
     Inr (payload_of (JObj []) (JStr ''ada@example.com'') Testing ''1970-01-01T00:00:00.000Z'')"
    by (simp add: build_payload_readable nullish_def sample_world_def sample_clock_def)
  have d: "js_prop sample_data ''employment'' = JArr [] []" "\<not> has_key (JObj []) ''employment''"
    by (simp_all add: sample_data_def)
  from work_experience_iff_employment [OF b] work_experience_iff_employment [OF b'] d
  show ?thesis by (metis truthy.simps(6))
qed

section \<open>Claims about the parser gateway and the submission handler\<close>

lemma isPythonServiceAvailable_eq:
  "isPythonServiceAvailable w =
     (Inr (health_get w 0 = None),
      w\<lparr>trace := trace w @ [HealthProbe], health_get := health_get w \<circ> Suc\<rparr>)"
  by (simp add: isPythonServiceAvailable_def axios_get_health_def split: option.splits)

lemma sendUrlToPythonService_unavailable:
  "health_get w 0 = Some error \<Longrightarrow>
   sendUrlToPythonService fileUrl w =
     (Inr JNull, w\<lparr>trace := trace w @ [HealthProbe], health_get := health_get w \<circ> Suc\<rparr>)"
  by (simp add: sendUrlToPythonService_def isPythonServiceAvailable_eq)

lemma sendUrlToPythonService_available:
  "health_get w 0 = None \<Longrightarrow>
   sendUrlToPythonService fileUrl w =
     (Inr (case parse_post w 0 of Inl error \<Rightarrow> JNull | Inr response \<Rightarrow> resp_data response),
      w\<lparr>trace := trace w @ [HealthProbe, ParseRequest fileUrl],
        health_get := health_get w \<circ> Suc, parse_post := parse_post w \<circ> Suc\<rparr>)"
  by (simp add: sendUrlToPythonService_def isPythonServiceAvailable_eq axios_post_parse_def
      split: sum.splits)

text \<open>
  Claim C8. For every file URL: when the availability probe fails, \<open>sendUrlToPythonService\<close>
  returns \<open>null\<close> and the only outside call it has made is the probe, so the parse
  request is not issued; when the probe succeeds and the parse request itself fails
  (timeout, a status outside 2xx, a connection reset: the request rejects), it returns
  \<open>null\<close> as well. In no case does an exception reach the caller.
\<close>

theorem sendUrlToPythonService_degrades_to_null:
  "(health_get w 0 \<noteq> None \<longrightarrow>
      fst (sendUrlToPythonService fileUrl w) = Inr JNull \<and>
      trace (snd (sendUrlToPythonService fileUrl w)) = trace w @ [HealthProbe] \<and>
      parse_post (snd (sendUrlToPythonService fileUrl w)) = parse_post w) \<and>
   (health_get w 0 = None \<and> isl (parse_post w 0) \<longrightarrow>
      fst (sendUrlToPythonService fileUrl w) = Inr JNull \<and>
      trace (snd (sendUrlToPythonService fileUrl w)) =
        trace w @ [HealthProbe, ParseRequest fileUrl]) \<and>
   \<not> isl (fst (sendUrlToPythonService fileUrl w))"
proof (cases "health_get w 0")
  case None
  then show ?thesis
    by (auto simp: sendUrlToPythonService_available split: sum.splits)
next
  case (Some error)
  then show ?thesis
    by (simp add: sendUrlToPythonService_unavailable)
qed

theorem sendUrlToPythonService_degrades_to_null_witness:
  "fst (sendUrlToPythonService ''https://cv-bucket/cv.pdf''
          (sample_world\<lparr>health_get := (\<lambda>n. Some timeout_error)\<rparr>)) = Inr JNull \<and>
   trace (snd (sendUrlToPythonService ''https://cv-bucket/cv.pdf''
          (sample_world\<lparr>health_get := (\<lambda>n. Some timeout_error)\<rparr>))) = [HealthProbe] \<and>
   fst (sendUrlToPythonService ''https://cv-bucket/cv.pdf''
          (sample_world\<lparr>parse_post := (\<lambda>n. Inl unavailable_error)\<rparr>)) = Inr JNull \<and>
   trace (snd (sendUrlToPythonService ''https://cv-bucket/cv.pdf''
          (sample_world\<lparr>parse_post := (\<lambda>n. Inl unavailable_error)\<rparr>))) =
     [HealthProbe, ParseRequest ''https://cv-bucket/cv.pdf'']"
proof -
  note a = sendUrlToPythonService_degrades_to_null
             [of "sample_world\<lparr>health_get := (\<lambda>n. Some timeout_error)\<rparr>"
                 "''https://cv-bucket/cv.pdf''", THEN conjunct1]
  note b = sendUrlToPythonService_degrades_to_null
             [of "sample_world\<lparr>parse_post := (\<lambda>n. Inl unavailable_error)\<rparr>"
                 "''https://cv-bucket/cv.pdf''", THEN conjunct2, THEN conjunct1]
  have e: "trace sample_world = []" "health_get sample_world 0 = None"
    by (simp_all add: sample_world_def)
  from a have "fst (sendUrlToPythonService ''https://cv-bucket/cv.pdf''
          (sample_world\<lparr>health_get := (\<lambda>n. Some timeout_error)\<rparr>)) = Inr JNull \<and>
     trace (snd (sendUrlToPythonService ''https://cv-bucket/cv.pdf''
          (sample_world\<lparr>health_get := (\<lambda>n. Some timeout_error)\<rparr>))) = [HealthProbe]"
    by (simp add: e)
  moreover from b have "fst (sendUrlToPythonService ''https://cv-bucket/cv.pdf''
          (sample_world\<lparr>parse_post := (\<lambda>n. Inl unavailable_error)\<rparr>)) = Inr JNull \<and>
     trace (snd (sendUrlToPythonService ''https://cv-bucket/cv.pdf''
          (sample_world\<lparr>parse_post := (\<lambda>n. Inl unavailable_error)\<rparr>))) =
     [HealthProbe, ParseRequest ''https://cv-bucket/cv.pdf'']"
    by (simp add: e)
  ultimately show ?thesis by simp
qed

text \<open>
  Claim C4. For every submission in which \<open>name\<close>, \<open>email\<close>, \<open>phone\<close> or \<open>cv\<close> is missing
  (a text field that is \<open>null\<close> or empty, no file), the handler answers 400 with
  \<open>Missing required fields\<close> and leaves the world as it was: no upload, no parser call, no
  webhook call, no record saved.
\<close>

theorem POST_rejects_missing_fields:
  "missing (form_name formData) \<or> missing (form_email formData) \<or>
   missing (form_phone formData) \<or> form_cv formData = None \<Longrightarrow>
   POST_applications (Inr formData) w =
     (NextResponse_json [(''error'', JStr ''Missing required fields'')] 400, w)"
  by (simp add: POST_applications_def)

theorem POST_rejects_missing_fields_witness:
  "status_code (fst (POST_applications
      (Inr \<lparr>form_name = Some ''Ada'', form_email = Some ''ada@example.com'',
            form_phone = Some '''', form_cv = None\<rparr>) sample_world)) = 400 \<and>
   trace (snd (POST_applications
      (Inr \<lparr>form_name = Some ''Ada'', form_email = Some ''ada@example.com'',
            form_phone = Some '''', form_cv = None\<rparr>) sample_world)) = [] \<and>
   store (snd (POST_applications
      (Inr \<lparr>form_name = Some ''Ada'', form_email = Some ''ada@example.com'',
            form_phone = Some '''', form_cv = None\<rparr>) sample_world)) = []"
  using POST_rejects_missing_fields
          [of "\<lparr>form_name = Some ''Ada'', form_email = Some ''ada@example.com'',
                form_phone = Some '''', form_cv = None\<rparr>" sample_world]
  by (simp add: missing_def NextResponse_json_def sample_world_def)

section \<open>Claims about the resend-webhook handler\<close>

lemma js_set_Inr: "js_set v k x = Inr d \<Longrightarrow> \<not> nullish d"
  by (cases v) (auto simp: nullish_def)

lemma resend_data_readable: "\<not> nullish (resend_data parse application)"
proof -
  let ?raw = "js_opt_prop (app_parsedResume application) ''rawData''"
  let ?set = "case (case ?raw of JStr s \<Rightarrow> parse s | _ \<Rightarrow> Inr ?raw) of
                 Inl e \<Rightarrow> Inl e
               | Inr data \<Rightarrow> js_set data ''cvUrl'' (JStr (cv_url (app_cv application)))"
  show ?thesis
  proof (cases "truthy ?raw")
    case False
    then show ?thesis by (simp add: resend_data_def Let_def nullish_def)
  next
    case True
    show ?thesis
    proof (cases ?set)
      case (Inl e)
      with True show ?thesis by (simp add: resend_data_def Let_def nullish_def)
    next
      case (Inr d)
      then have "\<not> nullish d"
        by (auto split: sum.splits dest: js_set_Inr)
      with True Inr show ?thesis by (simp add: resend_data_def Let_def)
    qed
  qed
qed

lemma resend_data_minimal:
  "nullish (app_parsedResume application) \<Longrightarrow>
   resend_data parse application =
     JObj [(''fullName'', JStr (app_name application)),
           (''email'', JStr (app_email application)),
           (''cvUrl'', JStr (cv_url (app_cv application)))]"
  by (simp add: resend_data_def Let_def js_opt_prop_def)

lemma resend_try_found:
  assumes "db_connect w 0 = None" "db_find w 0 = None" "map_of (store w) id' = Some application"
  shows "fst (POST_resend_webhook id' w) =
     (case db_save w 0 of
        None \<Rightarrow> NextResponse_json
           [(''success'', JBool True),
            (''message'', JStr ''Webhook resent successfully''),
            (''webhookResult'',
             case webhook_post w 0 of Inl error \<Rightarrow> failure_result error
             | Inr response \<Rightarrow> success_result response)] 200
      | Some error \<Rightarrow> NextResponse_json [(''error'', JStr ''Error resending webhook'')] 500)"
    and "posts (trace (snd (POST_resend_webhook id' w))) =
       posts (trace w) @
       [payload_of (resend_data (json_parse w) application) (JStr (app_email application)) Prod
          (toISOString (clock w 0))]"
  using assms resend_data_readable [of "json_parse w" application]
  by (simp_all add: POST_resend_webhook_def resend_try_def dbConnect_def findById_def
        sendWebhookNotification_readable application_save_def Let_def posts_append
      split: option.splits)

text \<open>
  Claim C7. For a stored record with no \<open>parsedResume\<close> at all, the resend handler builds
  the notification input as exactly the three fields \<open>fullName\<close>, \<open>email\<close> and \<open>cvUrl\<close>,
  taken from the record's \<open>name\<close>, \<open>email\<close> and \<open>cv.url\<close>; and for such a record that is
  found, the payload the handler posts is the one built from that input.
\<close>

theorem resend_without_parsedResume_sends_base_fields:
  "nullish (app_parsedResume application) \<Longrightarrow>
   resend_data parse application =
     JObj [(''fullName'', JStr (app_name application)),
           (''email'', JStr (app_email application)),
           (''cvUrl'', JStr (cv_url (app_cv application)))] \<and>
   (db_connect w 0 = None \<and> db_find w 0 = None \<and> map_of (store w) id' = Some application \<longrightarrow>
      posts (trace (snd (POST_resend_webhook id' w))) =
        posts (trace w) @
        [payload_of (JObj [(''fullName'', JStr (app_name application)),
                           (''email'', JStr (app_email application)),
                           (''cvUrl'', JStr (cv_url (app_cv application)))])
           (JStr (app_email application)) Prod (toISOString (clock w 0))])"
  using resend_try_found(2) [of w id' application]
  by (simp add: resend_data_minimal)

theorem resend_without_parsedResume_sends_base_fields_witness:
  "resend_data sample_parse sample_application =
     JObj [(''fullName'', JStr ''Ada''), (''email'', JStr ''ada@example.com''),
           (''cvUrl'', JStr ''https://cv-bucket.s3.eu-west-1.amazonaws.com/applications/0-cv.pdf'')] \<and>
   posts (trace (snd (POST_resend_webhook ''65f0c0ffee0'' stored_world))) =
     [payload_of
        (JObj [(''fullName'', JStr ''Ada''), (''email'', JStr ''ada@example.com''),
           (''cvUrl'', JStr ''https://cv-bucket.s3.eu-west-1.amazonaws.com/applications/0-cv.pdf'')])
        (JStr ''ada@example.com'') Prod ''1970-01-01T00:00:00.000Z'']"
proof -
  have n: "nullish (app_parsedResume sample_application)"
    by (simp add: sample_application_def nullish_def)
  have h: "db_connect stored_world 0 = None \<and> db_find stored_world 0 = None \<and>
           map_of (store stored_world) ''65f0c0ffee0'' = Some sample_application"
    by (simp add: stored_world_def sample_world_def)
  have e: "trace stored_world = []"
    "toISOString (clock stored_world 0) = ''1970-01-01T00:00:00.000Z''"
    by (simp_all add: stored_world_def sample_world_def sample_clock_def)
  have f: "app_name sample_application = ''Ada''"
    "app_email sample_application = ''ada@example.com''"
    "cv_url (app_cv sample_application) =
       ''https://cv-bucket.s3.eu-west-1.amazonaws.com/applications/0-cv.pdf''"
    by (simp_all add: sample_application_def)
  note t = resend_without_parsedResume_sends_base_fields
             [OF n, of sample_parse stored_world "''65f0c0ffee0''"]
  from t [THEN conjunct1] have "resend_data sample_parse sample_application =
     JObj [(''fullName'', JStr ''Ada''), (''email'', JStr ''ada@example.com''),
           (''cvUrl'', JStr ''https://cv-bucket.s3.eu-west-1.amazonaws.com/applications/0-cv.pdf'')]"
    by (simp add: f)
  moreover from t [THEN conjunct2] h
  have "posts (trace (snd (POST_resend_webhook ''65f0c0ffee0'' stored_world))) =
     [payload_of
        (JObj [(''fullName'', JStr ''Ada''), (''email'', JStr ''ada@example.com''),
           (''cvUrl'', JStr ''https://cv-bucket.s3.eu-west-1.amazonaws.com/applications/0-cv.pdf'')])
        (JStr ''ada@example.com'') Prod ''1970-01-01T00:00:00.000Z'']"
    by (simp add: e f)
  ultimately show ?thesis by simp
qed

text \<open>
  Claim C9. When the record is found and the final save succeeds, the resend handler
  answers 200 with \<open>success: true\<close> and the message \<open>Webhook resent successfully\<close>,
  whatever the notifier returned: when the delivery failed, only the embedded
  \<open>webhookResult\<close> says so (\<open>success: false\<close>).
\<close>

theorem resend_reports_success_whatever_the_delivery:
  assumes "db_connect w 0 = None" "db_find w 0 = None" "map_of (store w) id' = Some application"
    and "db_save w 0 = None"
  shows "fst (POST_resend_webhook id' w) =
     NextResponse_json
       [(''success'', JBool True),
        (''message'', JStr ''Webhook resent successfully''),
        (''webhookResult'',
         case webhook_post w 0 of Inl error \<Rightarrow> failure_result error
         | Inr response \<Rightarrow> success_result response)] 200 \<and>
   (isl (webhook_post w 0) \<longrightarrow>
      status_code (fst (POST_resend_webhook id' w)) = 200 \<and>
      js_prop (json_body (fst (POST_resend_webhook id' w))) ''success'' = JBool True \<and>
      js_prop (json_body (fst (POST_resend_webhook id' w))) ''message'' =
        JStr ''Webhook resent successfully'' \<and>
      js_prop (js_prop (json_body (fst (POST_resend_webhook id' w))) ''webhookResult'')
        ''success'' = JBool False)"
  using resend_try_found(1) [OF assms(1-3)] assms(4)
  by (auto simp: NextResponse_json_def split: sum.splits)

theorem resend_reports_success_whatever_the_delivery_witness:
  "status_code (fst (POST_resend_webhook ''65f0c0ffee0'' stored_down_world)) = 200 \<and>
   js_prop (json_body (fst (POST_resend_webhook ''65f0c0ffee0'' stored_down_world))) ''success'' =
     JBool True \<and>
   js_prop (js_prop (json_body (fst (POST_resend_webhook ''65f0c0ffee0'' stored_down_world)))
      ''webhookResult'') ''success'' = JBool False"
proof -
  have h: "db_connect stored_down_world 0 = None" "db_find stored_down_world 0 = None"
    "map_of (store stored_down_world) ''65f0c0ffee0'' = Some sample_application"
    "db_save stored_down_world 0 = None"
    by (simp_all add: stored_down_world_def stored_world_def sample_world_def)
  have f: "isl (webhook_post stored_down_world 0)"
    by (simp add: stored_down_world_def)
  from resend_reports_success_whatever_the_delivery [OF h, THEN conjunct2] f
  show ?thesis by simp
qed

section \<open>The submission handler when the projection fails\<close>

lemma uploadFile_enriched:
  assumes "AWS_S3_BUCKET_NAME w \<noteq> []" "s3_send w 0 = None" "health_get w 0 = None"
    and "parse_post w 0 = Inr response"
  shows "uploadFile file fileName True w =
     (Inr (upload_url w fileName, resp_data response),
      w\<lparr>clock := clock w \<circ> Suc,
        trace := trace w @ [S3Put (upload_key w fileName) (file_buffer file) (content_type file),
                            HealthProbe, ParseRequest (upload_url w fileName)],
        s3_send := s3_send w \<circ> Suc,
        health_get := health_get w \<circ> Suc,
        parse_post := parse_post w \<circ> Suc\<rparr>)"
  using assms
  by (simp add: uploadFile_def upload_try_def new_Date_def s3Client_send_def Let_def
        sendUrlToPythonService_available upload_url_def upload_key_def)

lemma process_parsed_with_raw:
  assumes "truthy (js_and pythonResponse (js_prop pythonResponse ''parsed_data''))"
    and "isl (parse_parsed_data (json_parse w) (js_prop pythonResponse ''parsed_data''))"
  shows "process_parsed_with notify pythonResponse email fileUrl w =
     (case notify (JObj [(''rawData'', js_prop pythonResponse ''parsed_data'')])
             (JStr email) Testing w of
        (Inr webhookResult, w2) \<Rightarrow>
          ((JObj [(''rawData'', js_prop pythonResponse ''parsed_data'')], webhookResult), w2)
      | (Inl webhookError, w2) \<Rightarrow>
          ((JObj [(''rawData'', js_prop pythonResponse ''parsed_data'')], JNull), w2))"
proof -
  from assms(2) obtain parseError
    where "parse_parsed_data (json_parse w) (js_prop pythonResponse ''parsed_data'') = Inl parseError"
    by (cases "parse_parsed_data (json_parse w) (js_prop pythonResponse ''parsed_data'')") auto
  then have "project_and_notify notify (js_prop pythonResponse ''parsed_data'') email fileUrl w =
      (Inl parseError, w)"
    by (simp add: project_and_notify_def)
  then show ?thesis
    using assms(1) by (simp add: process_parsed_with_def Let_def)
qed

lemma process_parsed_raw:
  assumes "truthy (js_and pythonResponse (js_prop pythonResponse ''parsed_data''))"
    and "isl (parse_parsed_data (json_parse w) (js_prop pythonResponse ''parsed_data''))"
  shows "process_parsed pythonResponse email fileUrl w =
     ((JObj [(''rawData'', js_prop pythonResponse ''parsed_data'')],
       case webhook_post w 0 of Inl error \<Rightarrow> failure_result error
       | Inr response \<Rightarrow> success_result response),
      w\<lparr>clock := clock w \<circ> Suc,
        trace := trace w @
          [WebhookPost
             (payload_of (JObj [(''rawData'', js_prop pythonResponse ''parsed_data'')])
                (JStr email) Testing (toISOString (clock w 0)))
             (JStr email)],
        webhook_post := webhook_post w \<circ> Suc\<rparr>)"
proof -
  have "\<not> nullish (JObj [(''rawData'', js_prop pythonResponse ''parsed_data'')])"
    by (simp add: nullish_def)
  then show ?thesis
    by (simp add: process_parsed_def process_parsed_with_raw [OF assms]
          sendWebhookNotification_readable)
qed

lemma truthy_js_and: "truthy (js_and a b) \<Longrightarrow> truthy b"
  by (cases "truthy a") (simp_all add: js_and_def)

lemma schema_parsedResume_raw:
  "x \<noteq> JUndefined \<Longrightarrow>
   schema_parsedResume cast (JObj [(''rawData'', x)]) =
     JObj [(''rawData'', x), (''employment'', JArr [] []), (''technicalSkills'', JArr [] []),
           (''softSkills'', JArr [] []), (''education'', JArr [] [])]"
  by (simp add: parsedResume_paths_def parsedResume_array_paths_def)

lemma payload_of_ignores_rawData:
  "payload_of (JObj [(''rawData'', x)]) email environment t = payload_of (JObj []) email environment t"
  by (simp add: payload_of_def)

lemma projection_failure_run:
  assumes form: "form_name formData = Some name" "name \<noteq> []"
      "form_email formData = Some email" "email \<noteq> []"
      "form_phone formData = Some phone" "phone \<noteq> []"
      "form_cv formData = Some cvFile"
    and upload: "AWS_S3_BUCKET_NAME w \<noteq> []" "s3_send w 0 = None"
    and enriched: "health_get w 0 = None" "parse_post w 0 = Inr response"
      "truthy (js_and (resp_data response) (js_prop (resp_data response) ''parsed_data''))"
    and throws: "isl (parse_parsed_data (json_parse w)
                        (js_prop (resp_data response) ''parsed_data''))"
    and db: "db_connect w 0 = None"
  shows
    "posts (trace (snd (POST_applications (Inr formData) w))) =
       posts (trace w) @
       [payload_of (JObj [(''rawData'', js_prop (resp_data response) ''parsed_data'')])
          (JStr email) Testing (toISOString (clock w 1))] \<and>
     (db_save w 0 = None \<longrightarrow>
        status_code (fst (POST_applications (Inr formData) w)) = 201 \<and>
        map_option app_parsedResume
          (map_of (store (snd (POST_applications (Inr formData) w))) (object_id w 0)) =
          Some (JObj [(''rawData'', js_prop (resp_data response) ''parsed_data''),
                      (''employment'', JArr [] []), (''technicalSkills'', JArr [] []),
                      (''softSkills'', JArr [] []), (''education'', JArr [] [])])) \<and>
     (db_save w 0 \<noteq> None \<longrightarrow>
        status_code (fst (POST_applications (Inr formData) w)) = 500 \<and>
        store (snd (POST_applications (Inr formData) w)) = store w)"
proof -
  let ?blob = "Blob (file_bytes cvFile) (file_type cvFile)"
  let ?w1 = "w\<lparr>clock := clock w \<circ> Suc,
        trace := trace w @ [S3Put (upload_key w (file_name cvFile)) (file_buffer ?blob)
                              (content_type ?blob),
                            HealthProbe, ParseRequest (upload_url w (file_name cvFile))],
        s3_send := s3_send w \<circ> Suc,
        health_get := health_get w \<circ> Suc,
        parse_post := parse_post w \<circ> Suc\<rparr>"
  let ?w2 = "?w1\<lparr>trace := trace ?w1 @ [DbConnect], db_connect := db_connect ?w1 \<circ> Suc\<rparr>"
  have up: "upload_with_retry ?blob (file_name cvFile) w =
      (Inr (upload_url w (file_name cvFile), resp_data response), ?w1)"
    by (simp add: upload_with_retry_def uploadFile_enriched [OF upload enriched(1,2)])
  have dbc: "dbConnect ?w1 = (Inr (), ?w2)"
    using db by (simp add: dbConnect_def)
  have thr: "isl (parse_parsed_data (json_parse ?w2)
                    (js_prop (resp_data response) ''parsed_data''))"
    using throws by simp
  have def: "js_prop (resp_data response) ''parsed_data'' \<noteq> JUndefined"
    using truthy_js_and [OF enriched(3)] by auto
  note pp = process_parsed_raw [OF enriched(3) thr, of email "upload_url w (file_name cvFile)"]
  have sub: "process_submission name email phone cvFile w =
      (case process_parsed (resp_data response) email (upload_url w (file_name cvFile)) ?w2 of
         ((parsedResume, webhookResult), w3) \<Rightarrow>
           (case new_Application name email phone
                   \<lparr>cv_fileName = file_name cvFile, cv_fileType = file_type cvFile,
                    cv_fileSize = file_size cvFile,
                    cv_url = upload_url w (file_name cvFile),
                    cv_pythonAnalysis = resp_data response\<rparr>
                   parsedResume
                   (js_or (js_opt_prop webhookResult ''success'') (JBool False))
                   webhookResult w3 of
              (application, w4) \<Rightarrow>
                (case application_save application w4 of
                   (Inl error, w5) \<Rightarrow> (Inl error, w5)
                 | (Inr u', w5) \<Rightarrow>
                     (Inr (NextResponse_json
                             [(''success'', JBool True),
                              (''message'', JStr ''Application submitted successfully''),
                              (''applicationId'', JStr (app_id application)),
                              (''webhookSent'',
                               js_or (js_opt_prop webhookResult ''success'') (JBool False))]
                             201), w5))))"
    by (simp only: process_submission_def Let_def up dbc prod.case sum.case)
  have post: "POST_applications (Inr formData) w =
      (case process_submission name email phone cvFile w of
         (Inr response, w1) \<Rightarrow> (response, w1)
       | (Inl uploadError, w1) \<Rightarrow>
           (NextResponse_json
              [(''error'', JStr (''Error processing application: '' @
                                 exn_message uploadError))] 500, w1))"
    using form by (simp add: POST_applications_def missing_def)
  show ?thesis
  proof (cases "db_save w 0")
    case None
    then show ?thesis
      unfolding post sub pp
      by (simp add: new_Application_def new_ObjectId_def application_save_def posts_append
            NextResponse_json_def update_conv' schema_parsedResume_raw [OF def]
          del: schema_parsedResume.simps)
  next
    case (Some error)
    then show ?thesis
      unfolding post sub pp
      by (simp add: new_Application_def new_ObjectId_def application_save_def posts_append
            NextResponse_json_def)
  qed
qed

text \<open>
  Claim C6, as amended. Take a submission with all four fields whose upload succeeds and
  whose parser response carries a truthy \<open>parsed_data\<close> on which the structural projection
  throws (\<open>JSON.parse\<close> throws, or yields \<open>null\<close>). Then, whatever the notifier is, the
  handler calls it once, with the data \<open>{ rawData: parsed_data }\<close>, the form email and
  \<open>testing\<close>, and hands \<open>{ rawData: parsed_data }\<close> to the document model as
  \<open>parsedResume\<close>. With the notifier of the repository one payload is posted; it is the
  payload of an empty \<open>data\<close> (it carries the form email and no field of the raw payload,
  which the payload mapping does not read). When the save succeeds the answer is 201 and
  the persisted document's \<open>parsedResume\<close> holds \<open>rawData\<close> equal to the original
  \<open>parsed_data\<close> together with the schema's default for each of its four array paths
  (\<open>employment\<close>, \<open>technicalSkills\<close>, \<open>softSkills\<close>, \<open>education\<close>: an empty array) and
  nothing else. When the save fails the answer is 500 and nothing is persisted.
\<close>

theorem projection_failure_stores_raw_with_defaults_and_notifies:
  assumes form: "form_name formData = Some name" "name \<noteq> []"
      "form_email formData = Some email" "email \<noteq> []"
      "form_phone formData = Some phone" "phone \<noteq> []"
      "form_cv formData = Some cvFile"
    and upload: "AWS_S3_BUCKET_NAME w \<noteq> []" "s3_send w 0 = None"
    and enriched: "health_get w 0 = None" "parse_post w 0 = Inr response"
      "truthy (js_and (resp_data response) (js_prop (resp_data response) ''parsed_data''))"
    and throws: "isl (parse_parsed_data (json_parse w)
                        (js_prop (resp_data response) ''parsed_data''))"
    and db: "db_connect w 0 = None"
  shows
    "process_parsed_with notify (resp_data response) email fileUrl w =
       (case notify (JObj [(''rawData'', js_prop (resp_data response) ''parsed_data'')])
               (JStr email) Testing w of
          (Inr webhookResult, w2) \<Rightarrow>
            ((JObj [(''rawData'', js_prop (resp_data response) ''parsed_data'')],
              webhookResult), w2)
        | (Inl webhookError, w2) \<Rightarrow>
            ((JObj [(''rawData'', js_prop (resp_data response) ''parsed_data'')], JNull), w2)) \<and>
     posts (trace (snd (POST_applications (Inr formData) w))) =
       posts (trace w) @
       [payload_of (JObj [(''rawData'', js_prop (resp_data response) ''parsed_data'')])
          (JStr email) Testing (toISOString (clock w 1))] \<and>
     payload_of (JObj [(''rawData'', js_prop (resp_data response) ''parsed_data'')])
          (JStr email) Testing (toISOString (clock w 1)) =
       payload_of (JObj []) (JStr email) Testing (toISOString (clock w 1)) \<and>
     (db_save w 0 = None \<longrightarrow>
        status_code (fst (POST_applications (Inr formData) w)) = 201 \<and>
        map_option app_parsedResume
          (map_of (store (snd (POST_applications (Inr formData) w))) (object_id w 0)) =
          Some (JObj [(''rawData'', js_prop (resp_data response) ''parsed_data''),
                      (''employment'', JArr [] []), (''technicalSkills'', JArr [] []),
                      (''softSkills'', JArr [] []), (''education'', JArr [] [])])) \<and>
     (db_save w 0 \<noteq> None \<longrightarrow>
        status_code (fst (POST_applications (Inr formData) w)) = 500 \<and>
        store (snd (POST_applications (Inr formData) w)) = store w)"
  using projection_failure_run [OF assms]
    process_parsed_with_raw [OF enriched(3) throws, of notify email fileUrl]
    payload_of_ignores_rawData [of "js_prop (resp_data response) ''parsed_data''" "JStr email"
      Testing "toISOString (clock w 1)"]
  by blast

lemma sample_submission_facts:
  "form_name sample_form = Some ''Ada''" "''Ada'' \<noteq> []"
  "form_email sample_form = Some ''ada@example.com''" "''ada@example.com'' \<noteq> []"
  "form_phone sample_form = Some ''1234567890''" "''1234567890'' \<noteq> []"
  "form_cv sample_form = Some \<lparr>file_name = ''cv.pdf'', file_type = ''application/pdf'',
                       file_size = 3, file_bytes = [37, 80, 68]\<rparr>"
  "AWS_S3_BUCKET_NAME garbled_world \<noteq> []" "s3_send garbled_world 0 = None"
  "health_get garbled_world 0 = None"
  "parse_post garbled_world 0 =
     Inr (HttpResponse 200 (JObj [(''parsed_data'', JStr ''<html>'')]))"
  "truthy (js_and (resp_data (HttpResponse 200 (JObj [(''parsed_data'', JStr ''<html>'')])))
     (js_prop (resp_data (HttpResponse 200 (JObj [(''parsed_data'', JStr ''<html>'')])))
        ''parsed_data''))"
  "isl (parse_parsed_data (json_parse garbled_world)
     (js_prop (resp_data (HttpResponse 200 (JObj [(''parsed_data'', JStr ''<html>'')])))
        ''parsed_data''))"
  "db_connect garbled_world 0 = None"
  by (simp_all add: sample_form_def garbled_world_def sample_world_def js_and_def
        parse_parsed_data_def sample_parse_def)

lemma garbled_world_facts:
  "trace garbled_world = []" "db_save garbled_world 0 = None"
  "toISOString (clock garbled_world 1) = ''1970-01-01T00:00:00.001Z''"
  "object_id garbled_world 0 = ''65f0c0ffee65f0c0ffee0000''"
  "js_prop (resp_data (HttpResponse 200 (JObj [(''parsed_data'', JStr ''<html>'')])))
     ''parsed_data'' = JStr ''<html>''"
  by (simp_all add: garbled_world_def sample_world_def sample_clock_def)

theorem projection_failure_stores_raw_with_defaults_and_notifies_witness:
  "posts (trace (snd (POST_applications (Inr sample_form) garbled_world))) =
     [payload_of (JObj [(''rawData'', JStr ''<html>'')]) (JStr ''ada@example.com'') Testing
        ''1970-01-01T00:00:00.001Z''] \<and>
   status_code (fst (POST_applications (Inr sample_form) garbled_world)) = 201 \<and>
   map_option app_parsedResume
     (map_of (store (snd (POST_applications (Inr sample_form) garbled_world)))
        ''65f0c0ffee65f0c0ffee0000'') =
     Some (JObj [(''rawData'', JStr ''<html>''),
                 (''employment'', JArr [] []), (''technicalSkills'', JArr [] []),
                 (''softSkills'', JArr [] []), (''education'', JArr [] [])])"
proof -
  note t = projection_failure_stores_raw_with_defaults_and_notifies
             [OF sample_submission_facts, of sendWebhookNotification "''url''"]
  from t [THEN conjunct2, THEN conjunct1]
  have "posts (trace (snd (POST_applications (Inr sample_form) garbled_world))) =
     [payload_of (JObj [(''rawData'', JStr ''<html>'')]) (JStr ''ada@example.com'') Testing
        ''1970-01-01T00:00:00.001Z'']"
    by (simp only: garbled_world_facts posts.simps append_Nil)
  moreover from t [THEN conjunct2, THEN conjunct2, THEN conjunct2, THEN conjunct1]
  have "status_code (fst (POST_applications (Inr sample_form) garbled_world)) = 201 \<and>
   map_option app_parsedResume
     (map_of (store (snd (POST_applications (Inr sample_form) garbled_world)))
        ''65f0c0ffee65f0c0ffee0000'') =
     Some (JObj [(''rawData'', JStr ''<html>''),
                 (''employment'', JArr [] []), (''technicalSkills'', JArr [] []),
                 (''softSkills'', JArr [] []), (''education'', JArr [] [])])"
    by (simp only: garbled_world_facts simp_thms)
  ultimately show ?thesis by simp
qed

text \<open>
  Claim C6 as stated fails: the persisted \<open>parsedResume\<close> does not hold \<open>rawData\<close> alone,
  it also holds the four empty arrays the schema defaults to.
\<close>

theorem persisted_parsedResume_not_only_rawData_counterexample:
  "map_option app_parsedResume
     (map_of (store (snd (POST_applications (Inr sample_form) garbled_world)))
        ''65f0c0ffee65f0c0ffee0000'') =
     Some (JObj [(''rawData'', JStr ''<html>''),
                 (''employment'', JArr [] []), (''technicalSkills'', JArr [] []),
                 (''softSkills'', JArr [] []), (''education'', JArr [] [])]) \<and>
   has_key (JObj [(''rawData'', JStr ''<html>''),
                 (''employment'', JArr [] []), (''technicalSkills'', JArr [] []),
                 (''softSkills'', JArr [] []), (''education'', JArr [] [])]) ''employment'' \<and>
   map_option app_parsedResume
     (map_of (store (snd (POST_applications (Inr sample_form) garbled_world)))
        ''65f0c0ffee65f0c0ffee0000'') \<noteq> Some (JObj [(''rawData'', JStr ''<html>'')])"
proof -
  note t = projection_failure_run [OF sample_submission_facts]
  from t [THEN conjunct2, THEN conjunct1]
  have "map_option app_parsedResume
     (map_of (store (snd (POST_applications (Inr sample_form) garbled_world)))
        ''65f0c0ffee65f0c0ffee0000'') =
     Some (JObj [(''rawData'', JStr ''<html>''),
                 (''employment'', JArr [] []), (''technicalSkills'', JArr [] []),
                 (''softSkills'', JArr [] []), (''education'', JArr [] [])])"
    by (simp only: garbled_world_facts simp_thms)
  then show ?thesis by auto
qed

end
